theory Spec2Isabelle
  imports Main "HOL-Library.Sublist" "HOL-Library.Multiset"
begin

section \<open>Data model\<close>

text \<open>
  A replacement (\<^verbatim>\<open>eslint.Rule.Fix\<close>): \<^verbatim>\<open>range[0]\<close>, \<^verbatim>\<open>range[1]\<close> and the
  replacement text. Offsets are JavaScript numbers holding integers.
\<close>

record Fix =
  range0 :: int
  range1 :: int
  fixText :: string

text \<open>
  The run-time value of a finding's \<^verbatim>\<open>fix\<close> property. Its declared type is
  \<^verbatim>\<open>eslint.Rule.Fix | undefined\<close>, yet \<^verbatim>\<open>getReplacements\<close> and
  \<^verbatim>\<open>replacementsAreEmpty\<close> test \<^verbatim>\<open>Array.isArray(fix)\<close>, so the array case is part
  of what the code handles.
\<close>

datatype fix_value = NoFix | OneFix Fix | FixArray "Fix list"

text \<open>
  A finding (\<^verbatim>\<open>eslint.Linter.LintMessage\<close>). \<^verbatim>\<open>None\<close> stands for \<^verbatim>\<open>null\<close> or
  \<^verbatim>\<open>undefined\<close>. The field \<^verbatim>\<open>fix\<close> is named \<open>fixOf\<close> here.
\<close>

record LintMessage =
  ruleId :: "string option"
  message :: string
  severity :: int
  line :: "int option"
  column :: "int option"
  endLine :: "int option"
  endColumn :: "int option"
  fixOf :: fix_value

text \<open>
  Failures of the code as values. \<open>TypeError\<close>: a property read on \<^verbatim>\<open>undefined\<close>.
  \<open>Thrown v\<close>: a value thrown by code outside the repository (the analyzer library, the
  process API). \<open>UndefinedLineStart\<close>: an out-of-range read of the line-start table gave
  \<^verbatim>\<open>undefined\<close>, which the code then hands to the TypeScript API; what that API does
  with it is outside this development, so the computation is cut there.
\<close>

datatype js_thrown = ThrownNullish | ThrownObject "string option"

datatype error = TypeError | Thrown js_thrown | UndefinedLineStart

section \<open>runner/failures.ts\<close>

definition getReplacements :: "fix_value \<Rightarrow> Fix list" where
  "getReplacements fx =
     (case fx of NoFix \<Rightarrow> [] | FixArray fs \<Rightarrow> fs | OneFix f \<Rightarrow> [f])"

text \<open>\<^verbatim>\<open>getReplacements(failure.fix)[at]\<close>: \<open>None\<close> is \<^verbatim>\<open>undefined\<close>.\<close>

definition getReplacement :: "LintMessage \<Rightarrow> nat \<Rightarrow> Fix option" where
  "getReplacement failure at =
     (let rs = getReplacements (fixOf failure)
      in if at < length rs then Some (rs ! at) else None)"

text \<open>
  The comparator of \<^verbatim>\<open>sortFailures\<close> reads \<^verbatim>\<open>getReplacement(a, 0).range[0]\<close>; on a
  finding without replacements that read is a TypeError.
\<close>

definition firstStart :: "LintMessage \<Rightarrow> error + int" where
  "firstStart failure =
     (case getReplacement failure 0 of None \<Rightarrow> Inl TypeError | Some r \<Rightarrow> Inr (range0 r))"

definition startKey :: "LintMessage \<Rightarrow> int" where
  "startKey failure = (case firstStart failure of Inr s \<Rightarrow> s | Inl _ \<Rightarrow> 0)"

text \<open>
  \<^verbatim>\<open>failures.sort((a, b) => start(a) - start(b))\<close>. \<^verbatim>\<open>Array.prototype.sort\<close> is stable
  and, on an array of two or more elements, hands every element to the comparator at
  least once, so one finding without replacements makes the sort throw; on fewer than
  two elements the comparator never runs. \<open>sort_key\<close> is the stable ascending sort.
\<close>

definition sortFailures :: "LintMessage list \<Rightarrow> error + LintMessage list" where
  "sortFailures failures =
     (if length failures < 2 then Inr failures
      else if list_ex (\<lambda>f. firstStart f = Inl TypeError) failures then Inl TypeError
      else Inr (sort_key startKey failures))"

definition overlaps :: "Fix \<Rightarrow> Fix \<Rightarrow> bool" where
  "overlaps a b = (range1 a \<ge> range0 b)"

text \<open>
  The loop of \<^verbatim>\<open>getNonOverlappingReplacements\<close> from \<^verbatim>\<open>i = 1\<close> on:
  \<open>nonOverlapping\<close> is the array built so far. \<^verbatim>\<open>overlaps\<close> reads \<^verbatim>\<open>.range\<close> of
  \<^verbatim>\<open>nonOverlapping[nonOverlapping.length - 1]\<close> and of \<^verbatim>\<open>replacements[0]\<close>; either
  being \<^verbatim>\<open>undefined\<close> is a TypeError.
\<close>

fun walk :: "Fix list \<Rightarrow> LintMessage list \<Rightarrow> error + Fix list" where
  "walk nonOverlapping [] = Inr nonOverlapping"
| "walk nonOverlapping (failure # rest) =
     (let replacements = getReplacements (fixOf failure)
      in if nonOverlapping = [] \<or> replacements = [] then Inl TypeError
         else if \<not> overlaps (last nonOverlapping) (hd replacements)
              then walk (nonOverlapping @ replacements) rest
              else walk nonOverlapping rest)"

text \<open>At \<^verbatim>\<open>i = 0\<close> the replacements are pushed without any test.\<close>

definition getNonOverlappingReplacements :: "LintMessage list \<Rightarrow> error + Fix list" where
  "getNonOverlappingReplacements failures =
     (case sortFailures failures of
        Inl e \<Rightarrow> Inl e
      | Inr [] \<Rightarrow> Inr []
      | Inr (first # rest) \<Rightarrow> walk (getReplacements (fixOf first)) rest)"

text \<open>
  Which findings the loop pushes. The source keeps only the flattened replacements;
  \<open>retained\<close> follows the same loop and records the findings whose replacements were
  pushed, so that "the finding is included" can be stated. \<open>walk_retained\<close> below ties
  it to \<open>walk\<close>.
\<close>

fun retained :: "Fix list \<Rightarrow> LintMessage list \<Rightarrow> LintMessage list" where
  "retained nonOverlapping [] = []"
| "retained nonOverlapping (failure # rest) =
     (let replacements = getReplacements (fixOf failure)
      in if nonOverlapping = [] \<or> replacements = [] then []
         else if \<not> overlaps (last nonOverlapping) (hd replacements)
              then failure # retained (nonOverlapping @ replacements) rest
              else retained nonOverlapping rest)"

definition retainedFailures :: "LintMessage list \<Rightarrow> LintMessage list" where
  "retainedFailures failures =
     (case sortFailures failures of
        Inl e \<Rightarrow> []
      | Inr [] \<Rightarrow> []
      | Inr (first # rest) \<Rightarrow> first # retained (getReplacements (fixOf first)) rest)"

text \<open>
  The shape the comment in \<^verbatim>\<open>sortFailures\<close> assumes ("the failures.replacements are
  sorted by position"): within one finding every range has start \<open>\<le>\<close> end and ends no
  later than the next one starts.
\<close>

fun orderedRanges :: "Fix list \<Rightarrow> bool" where
  "orderedRanges [] = True"
| "orderedRanges [r] = (range0 r \<le> range1 r)"
| "orderedRanges (r # s # rs) =
     (range0 r \<le> range1 r \<and> range1 r \<le> range0 s \<and> orderedRanges (s # rs))"

text \<open>Every replacement of \<open>A\<close> ends strictly before every replacement of \<open>B\<close> starts.\<close>

definition separated :: "LintMessage \<Rightarrow> LintMessage \<Rightarrow> bool" where
  "separated A B =
     list_all (\<lambda>a. list_all (\<lambda>b. range1 a < range0 b) (getReplacements (fixOf B)))
       (getReplacements (fixOf A))"

section \<open>plugin.ts\<close>

subsection \<open>Offsets\<close>

text \<open>
  An offset computed through the TypeScript API is a JavaScript number that holds an
  integer or \<^verbatim>\<open>NaN\<close> (\<^verbatim>\<open>getLineEndOfPosition\<close> yields \<^verbatim>\<open>NaN\<close> on an empty
  snapshot). Subtraction with \<^verbatim>\<open>NaN\<close> is \<^verbatim>\<open>NaN\<close>; \<^verbatim>\<open><=\<close>, \<^verbatim>\<open><\<close> and \<^verbatim>\<open>==\<close>
  are false as soon as one side is \<^verbatim>\<open>NaN\<close>.
\<close>

datatype number = Num int | NaN

fun numMinus :: "number \<Rightarrow> number \<Rightarrow> number" where
  "numMinus (Num a) (Num b) = Num (a - b)"
| "numMinus a b = NaN"

fun numLessEq :: "number \<Rightarrow> number \<Rightarrow> bool" where
  "numLessEq (Num a) (Num b) = (a \<le> b)"
| "numLessEq a b = False"

fun numLess :: "number \<Rightarrow> number \<Rightarrow> bool" where
  "numLess (Num a) (Num b) = (a < b)"
| "numLess a b = False"

fun numEq :: "number \<Rightarrow> number \<Rightarrow> bool" where
  "numEq (Num a) (Num b) = (a = b)"
| "numEq a b = False"

subsection \<open>Values exchanged with the host\<close>

text \<open>
  The part of \<^verbatim>\<open>ts.SourceFile\<close> that the plugin reads. The TypeScript library is not
  part of the repository: its line table and its two position functions are taken as
  given. \<open>fileEnd\<close> is \<^verbatim>\<open>file.end\<close>.
\<close>

record SourceFile =
  fileName :: string
  fileEnd :: int
  getLineStarts :: "int list"
  getLineEndOfPosition :: "int \<Rightarrow> number"
  getPositionOfLineAndCharacter :: "int \<Rightarrow> int \<Rightarrow> number"

datatype DiagnosticCategory = Warning | Error | Suggestion | Message

record Diagnostic =
  dFile :: "SourceFile option"
  dStart :: number
  dLength :: number
  dMessageText :: string
  dCategory :: DiagnosticCategory
  dSource :: "string option"
  dCode :: int

record TextSpan =
  spanStart :: number
  spanLength :: number
  spanEnd :: number

text \<open>
  A text change and its span. \<open>changeStart = None\<close> is a span whose \<^verbatim>\<open>start\<close> is
  \<^verbatim>\<open>undefined\<close>, which only \<^verbatim>\<open>getDisableRuleQuickFix\<close> can produce.
\<close>

record TextChange =
  newText :: string
  changeStart :: "int option"
  changeLength :: int

record FileTextChanges =
  changesFileName :: string
  textChanges :: "TextChange list"

record CodeFixAction =
  description :: string
  fixName :: string
  changes :: "FileTextChanges list"
  fixId :: "string option"
  fixAllDescription :: "string option"

text \<open>
  \<^verbatim>\<open>configurationManager.config\<close>, as far as the plugin reads it. \<^verbatim>\<open>exclude\<close> is a
  string, an array of strings or absent.
\<close>

datatype exclude_value = ExcludeAbsent | ExcludeString string | ExcludeArray "string list"

record Config =
  suppressWhileTypeErrorsPresent :: bool
  cfgIgnoreDefinitionFiles :: bool
  cfgJsEnable :: bool
  cfgExclude :: exclude_value
  cfgPackageManager :: "string option"
  alwaysShowRuleFailuresAsWarnings :: "bool option"
  cfgConfigFile :: "string option"

subsection \<open>Values exchanged with the runner (runner/index.ts)\<close>

datatype PackageManager = Npm | Pnpm | Yarn

record RunConfiguration =
  allowInlineConfig :: "bool option"
  reportUnusedDisableDirectives :: "bool option"
  jsEnable :: bool
  configFile :: "string option"
  ignoreDefinitionFiles :: bool
  exclude :: "string list"
  nodePath :: "string option"
  packageManager :: "PackageManager option"
  workspaceFolderPath :: "string option"

record LintResult =
  filePath :: string
  messages :: "LintMessage list"

record LintReport =
  errorCount :: int
  warningCount :: int
  results :: "LintResult list"
  fixableErrorCount :: int
  fixableWarningCount :: int
  usedDeprecatedRules :: "string list"

record RunResult =
  lintResult :: LintReport
  warnings :: "string list"
  resultWorkspaceFolderPath :: "string option"
  configFilePath :: "string option"

text \<open>
  JavaScript truthiness of a string that may be absent: \<open>Some v\<close> for a truthy
  string \<open>v\<close>, \<open>None\<close> for an absent or empty one.
\<close>

definition whenTruthy :: "string option \<Rightarrow> string option" where
  "whenTruthy s = (case s of None \<Rightarrow> None | Some v \<Rightarrow> if v = [] then None else Some v)"

text \<open>Decimal rendering of an integer, as a template literal renders a number.\<close>

function showNat :: "nat \<Rightarrow> string" where
  "showNat n =
     (if n < 10 then [''0123456789'' ! n]
      else showNat (n div 10) @ [''0123456789'' ! (n mod 10)])"
  by pat_completeness auto
termination
  by (relation "measure id") auto

declare showNat.simps [simp del]

definition showInt :: "int \<Rightarrow> string" where
  "showInt i = (if i < 0 then ''-'' @ showNat (nat (- i)) else showNat (nat i))"

definition showNumber :: "number \<Rightarrow> string" where
  "showNumber x = (case x of Num i \<Rightarrow> showInt i | NaN \<Rightarrow> ''NaN'')"

text \<open>\<^verbatim>\<open>`${ruleId}`\<close> for a rule identifier that may be \<^verbatim>\<open>null\<close>.\<close>

definition showRuleId :: "string option \<Rightarrow> string" where
  "showRuleId r = (case r of None \<Rightarrow> ''null'' | Some s \<Rightarrow> s)"

text \<open>\<^verbatim>\<open>xs[i]\<close>: \<open>None\<close> is \<^verbatim>\<open>undefined\<close>, the value of an out-of-range read.\<close>

definition arrayAt :: "'a list \<Rightarrow> int \<Rightarrow> 'a option" where
  "arrayAt xs i = (if 0 \<le> i \<and> i < int (length xs) then Some (xs ! nat i) else None)"

subsection \<open>The problem registry\<close>

record Problem =
  failure :: LintMessage
  fixable :: bool

text \<open>
  \<^verbatim>\<open>ProblemMap\<close> wraps a \<^verbatim>\<open>Map<string, Problem>\<close>, which iterates in insertion order
  and keeps the position of a key that is set again: an association list.
\<close>

type_synonym ProblemMap = "(string \<times> Problem) list"

definition key :: "number \<Rightarrow> number \<Rightarrow> string" where
  "key start end' = ''['' @ showNumber start @ '','' @ showNumber end' @ '']''"

fun mapSet :: "'k \<Rightarrow> 'v \<Rightarrow> ('k \<times> 'v) list \<Rightarrow> ('k \<times> 'v) list" where
  "mapSet k v [] = [(k, v)]"
| "mapSet k v ((k', v') # rest) =
     (if k' = k then (k, v) # rest else (k', v') # mapSet k v rest)"

definition ProblemMap_get :: "ProblemMap \<Rightarrow> number \<Rightarrow> number \<Rightarrow> Problem option" where
  "ProblemMap_get m start end' = map_of m (key start end')"

definition ProblemMap_set :: "ProblemMap \<Rightarrow> number \<Rightarrow> number \<Rightarrow> Problem \<Rightarrow> ProblemMap" where
  "ProblemMap_set m start end' problem = mapSet (key start end') problem m"

definition ProblemMap_values :: "ProblemMap \<Rightarrow> Problem list" where
  "ProblemMap_values m = map snd m"

subsection \<open>Text spans\<close>

text \<open>
  \<^verbatim>\<open>positionResolver\<close> inside \<^verbatim>\<open>getTextSpan\<close>. \<open>Inr None\<close> is \<^verbatim>\<open>null\<close>.
  \<^verbatim>\<open>if (line)\<close> fails for an absent line and for \<^verbatim>\<open>0\<close>.
\<close>

definition positionResolver :: "SourceFile \<Rightarrow> int option \<Rightarrow> int option \<Rightarrow> error + number option" where
  "positionResolver file ln col =
     (case ln of
        None \<Rightarrow> Inr None
      | Some l \<Rightarrow>
          if l = 0 then Inr None
          else
            let lineStarts = getLineStarts file in
            if l > int (length lineStarts) then
              (case arrayAt lineStarts (int (length lineStarts) - 1) of
                 None \<Rightarrow> Inl UndefinedLineStart
               | Some lastStart \<Rightarrow> Inr (Some (getLineEndOfPosition file lastStart)))
            else
              (case arrayAt lineStarts (l - 1) of
                 None \<Rightarrow> Inl UndefinedLineStart
               | Some lineStart \<Rightarrow>
                   let lineEnd = getLineEndOfPosition file lineStart in
                   (case col of
                      None \<Rightarrow> Inr (Some lineEnd)
                    | Some c \<Rightarrow>
                        if numLessEq (Num (c - 1))
                             (numMinus (getLineEndOfPosition file lineStart) (Num lineStart))
                        then Inr (Some (getPositionOfLineAndCharacter file (l - 1) (c - 1)))
                        else Inr (Some lineEnd))))"

text \<open>\<^verbatim>\<open>x ?? d\<close>: only \<^verbatim>\<open>null\<close> gives way to the default, \<^verbatim>\<open>NaN\<close> does not.\<close>

definition orElse :: "number option \<Rightarrow> number \<Rightarrow> number" where
  "orElse x d = (case x of None \<Rightarrow> d | Some v \<Rightarrow> v)"

definition getTextSpan :: "SourceFile \<Rightarrow> LintMessage \<Rightarrow> error + TextSpan" where
  "getTextSpan file lintMessage =
     (case positionResolver file (line lintMessage) (column lintMessage) of
        Inl e \<Rightarrow> Inl e
      | Inr s \<Rightarrow>
          let start = orElse s (Num 0) in
          (case positionResolver file (endLine lintMessage) (endColumn lintMessage) of
             Inl e \<Rightarrow> Inl e
           | Inr e \<Rightarrow>
               let end' = orElse e start in
               Inr \<lparr>spanStart = start, spanLength = numMinus end' start, spanEnd = end'\<rparr>))"

subsection \<open>Plugin state and collaborators\<close>

text \<open>
  What the logger receives. \<open>Info s\<close> is \<^verbatim>\<open>logger.info(s)\<close>. The renderings that the
  engine chooses are kept symbolic: \<open>ServiceError e\<close> is
  \<^verbatim>\<open>`eslint-language service error: ${e.toString()}`\<close>, \<open>StackTrace e\<close> is
  \<^verbatim>\<open>`Stack trace: ${e.stack}`\<close> and \<open>InfoFixes fs\<close> is \<^verbatim>\<open>JSON.stringify(fixes)\<close>.
\<close>

datatype log_entry = Info string | ServiceError error | StackTrace error | InfoFixes "CodeFixAction list"

text \<open>
  The mutable state of an \<^verbatim>\<open>ESLintPlugin\<close>: the registry \<^verbatim>\<open>codeFixActions\<close> (file name to
  \<^verbatim>\<open>ProblemMap\<close>), what was logged, and the paths handed to
  \<^verbatim>\<open>configFileWatcher.ensureWatching\<close>.
\<close>

record PluginState =
  codeFixActions :: "string \<rightharpoonup> ProblemMap"
  logged :: "log_entry list"
  watching :: "string list"

text \<open>
  The collaborators of the plugin that are not in the repository's sources: the two
  constants of \<^verbatim>\<open>./config\<close>, the runner seen from the plugin (what
  \<^verbatim>\<open>runner.runEsLint\<close> returns or throws), the program, the file system test, the two
  functions of \<^verbatim>\<open>path\<close>, and the host's script snapshots (\<^verbatim>\<open>getText\<close> of a snapshot,
  when there is one; an argument \<open>None\<close> is \<^verbatim>\<open>undefined\<close>).
\<close>

record Env =
  ESLINT_ERROR_CODE :: int
  ESLINT_ERROR_SOURCE :: string
  runEsLint :: "string \<Rightarrow> RunConfiguration \<Rightarrow> js_thrown + RunResult"
  getSourceFile :: "string \<Rightarrow> SourceFile"
  getCurrentDirectory :: string
  fileExists :: "string \<Rightarrow> bool"
  normalize :: "string \<Rightarrow> string"
  pathJoin :: "string \<Rightarrow> string \<Rightarrow> string"
  getScriptSnapshot :: "string \<Rightarrow> (int option \<Rightarrow> int option \<Rightarrow> string) option"

definition info :: "log_entry \<Rightarrow> PluginState \<Rightarrow> PluginState" where
  "info e st = st\<lparr>logged := logged st @ [e]\<rparr>"

subsection \<open>Recording problems and building diagnostics\<close>

definition replacementsAreEmpty :: "fix_value \<Rightarrow> bool" where
  "replacementsAreEmpty fx = (case fx of FixArray fs \<Rightarrow> fs = [] | _ \<Rightarrow> False)"

text \<open>
  \<^verbatim>\<open>!!(failure.fix && !replacementsAreEmpty(failure.fix))\<close>: an object and an array,
  also an empty one, are truthy; only the absent fix is not.
\<close>

definition isFixable :: "LintMessage \<Rightarrow> bool" where
  "isFixable f = (fixOf f \<noteq> NoFix \<and> \<not> replacementsAreEmpty (fixOf f))"

definition recordCodeAction :: "PluginState \<Rightarrow> LintMessage \<Rightarrow> SourceFile \<Rightarrow> error + PluginState" where
  "recordCodeAction st f file =
     (let documentAutoFixes =
            (case codeFixActions st (fileName file) of None \<Rightarrow> [] | Some m \<Rightarrow> m)
      in case getTextSpan file f of
           Inl e \<Rightarrow> Inl e
         | Inr sp \<Rightarrow>
             Inr (st\<lparr>codeFixActions := (codeFixActions st)
                   (fileName file \<mapsto>
                      ProblemMap_set documentAutoFixes (spanStart sp) (spanEnd sp)
                        \<lparr>failure = f, fixable = isFixable f\<rparr>)\<rparr>))"

definition getDiagnosticCategory :: "Config \<Rightarrow> LintMessage \<Rightarrow> DiagnosticCategory" where
  "getDiagnosticCategory cfg f =
     (if alwaysShowRuleFailuresAsWarnings cfg = Some True \<or> alwaysShowRuleFailuresAsWarnings cfg = None
      then Warning
      else if severity f \<noteq> 0 \<and> severity f = 2 then Error
      else Warning)"

text \<open>The test of the message is \<^verbatim>\<open>failure.ruleId !== null\<close>; \<open>None\<close> is \<^verbatim>\<open>null\<close> here.\<close>

definition makeDiagnostic :: "Env \<Rightarrow> Config \<Rightarrow> LintMessage \<Rightarrow> SourceFile \<Rightarrow> error + Diagnostic" where
  "makeDiagnostic env cfg f file =
     (let msg = (case ruleId f of
                   Some r \<Rightarrow> message f @ '' ('' @ r @ '')''
                 | None \<Rightarrow> message f);
          category = getDiagnosticCategory cfg f
      in case getTextSpan file f of
           Inl e \<Rightarrow> Inl e
         | Inr sp \<Rightarrow>
             Inr \<lparr>dFile = Some file, dStart = spanStart sp, dLength = spanLength sp,
                  dMessageText = msg, dCategory = category,
                  dSource = Some (ESLINT_ERROR_SOURCE env), dCode = ESLINT_ERROR_CODE env\<rparr>)"

text \<open>
  \<^verbatim>\<open>filterProblemsForFile\<close> (runner/failures.ts), with \<^verbatim>\<open>path.normalize\<close> given: the
  version that takes the report, which is what \<^verbatim>\<open>getSemanticDiagnostics\<close> and the runner's
  tests pass to it. The sources hold a second copy that takes an array of findings and
  reads \<^verbatim>\<open>each.source\<close>; \<^verbatim>\<open>getSemanticDiagnostics\<close> passes \<^verbatim>\<open>result.lintResult\<close>, a
  report, which has no \<^verbatim>\<open>filter\<close> method, so that copy is not the one modelled.
\<close>

definition filterProblemsForFile :: "(string \<Rightarrow> string) \<Rightarrow> string \<Rightarrow> LintReport \<Rightarrow> LintMessage list" where
  "filterProblemsForFile norm path report =
     concat (map messages
       (filter (\<lambda>r. filePath r \<noteq> [] \<and> norm (filePath r) = norm path) (results report)))"

subsection \<open>Fix actions\<close>

definition convertFixToTextChange :: "Fix \<Rightarrow> TextChange" where
  "convertFixToTextChange fx =
     \<lparr>newText = fixText fx, changeStart = Some (range0 fx), changeLength = range1 fx - range0 fx\<rparr>"

definition convertReplacementToTextChange :: "Fix \<Rightarrow> TextChange" where
  "convertReplacementToTextChange repl =
     \<lparr>newText = fixText repl, changeStart = Some (range0 repl),
      changeLength = range1 repl - range0 repl\<rparr>"

text \<open>
  \<^verbatim>\<open>failureToFileTextChange\<close> hands a truthy \<^verbatim>\<open>fix\<close> to \<^verbatim>\<open>convertFixToTextChange\<close>,
  which reads \<^verbatim>\<open>fix.range[0]\<close>: on an array \<^verbatim>\<open>fix.range\<close> is \<^verbatim>\<open>undefined\<close> and the
  read is a TypeError.
\<close>

definition failureToFileTextChange :: "LintMessage \<Rightarrow> string \<Rightarrow> error + FileTextChanges" where
  "failureToFileTextChange f name =
     (case fixOf f of
        NoFix \<Rightarrow> Inr \<lparr>changesFileName = name, textChanges = []\<rparr>
      | OneFix fx \<Rightarrow> Inr \<lparr>changesFileName = name, textChanges = [convertFixToTextChange fx]\<rparr>
      | FixArray fs \<Rightarrow> Inl TypeError)"

definition fromFailure :: "LintMessage \<Rightarrow> string" where
  "fromFailure f = ''eslint:'' @ showRuleId (ruleId f)"

definition getRuleFailureQuickFix :: "LintMessage \<Rightarrow> string \<Rightarrow> error + CodeFixAction" where
  "getRuleFailureQuickFix f name =
     (case failureToFileTextChange f name of
        Inl e \<Rightarrow> Inl e
      | Inr c \<Rightarrow>
          Inr \<lparr>description = ''Fix: '' @ message f,
               fixName = ''eslint:'' @ showRuleId (ruleId f),
               changes = [c], fixId = None, fixAllDescription = None\<rparr>)"

text \<open>The loop of \<^verbatim>\<open>getRuleFailureFixAllQuickFix\<close> over \<^verbatim>\<open>problems.values()\<close>.\<close>

fun fixAllChanges :: "string \<Rightarrow> string \<Rightarrow> Problem list \<Rightarrow> error + FileTextChanges list" where
  "fixAllChanges ruleName name [] = Inr []"
| "fixAllChanges ruleName name (problem # rest) =
     (if fixable problem \<and> ruleId (failure problem) = Some ruleName then
        (case failureToFileTextChange (failure problem) name of
           Inl e \<Rightarrow> Inl e
         | Inr c \<Rightarrow>
             (case fixAllChanges ruleName name rest of
                Inl e \<Rightarrow> Inl e
              | Inr cs \<Rightarrow> Inr (c # cs)))
      else fixAllChanges ruleName name rest)"

text \<open>\<open>Inr None\<close> is the \<^verbatim>\<open>undefined\<close> returned when there are fewer than two changes.\<close>

definition getRuleFailureFixAllQuickFix :: "string \<Rightarrow> ProblemMap \<Rightarrow> string \<Rightarrow> error + CodeFixAction option" where
  "getRuleFailureFixAllQuickFix ruleName problems name =
     (case fixAllChanges ruleName name (ProblemMap_values problems) of
        Inl e \<Rightarrow> Inl e
      | Inr cs \<Rightarrow>
          if length cs < 2 then Inr None
          else Inr (Some \<lparr>description = ''Fix all '' @ [CHR 0x27] @ ruleName @ [CHR 0x27],
                          fixName = ''eslint:fix-all:'' @ ruleName,
                          changes = cs, fixId = None, fixAllDescription = None\<rparr>))"

definition getFixAllAutoFixableQuickFix :: "ProblemMap \<Rightarrow> string \<Rightarrow> error + CodeFixAction" where
  "getFixAllAutoFixableQuickFix documentFixes name =
     (case getNonOverlappingReplacements
             (map failure (filter fixable (ProblemMap_values documentFixes))) of
        Inl e \<Rightarrow> Inl e
      | Inr allReplacements \<Rightarrow>
          Inr \<lparr>description = ''Fix all auto-fixable eslint failures'',
               fixName = ''eslint:fix-all'',
               changes = [\<lparr>changesFileName = name,
                           textChanges = map convertReplacementToTextChange allReplacements\<rparr>],
               fixId = None, fixAllDescription = None\<rparr>)"

text \<open>
  \<^verbatim>\<open>getDisableRuleQuickFix\<close>. \<^verbatim>\<open>lineStarts[failure.line - 1]\<close> is \<^verbatim>\<open>undefined\<close> for an
  absent line and for a line outside the table; nothing is thrown then, and the span of
  the change starts at \<^verbatim>\<open>undefined\<close>. With an absent line the comparison
  \<^verbatim>\<open>line < lineStarts.length - 1\<close> is false. The prefix is the match of
  \<^verbatim>\<open>/^([ \t]+)/\<close> on the line's text, or empty.
\<close>

definition getDisableRuleQuickFix :: "Env \<Rightarrow> LintMessage \<Rightarrow> string \<Rightarrow> SourceFile \<Rightarrow> CodeFixAction" where
  "getDisableRuleQuickFix env f name file =
     (let lineStarts = getLineStarts file;
          lineStart = (case line f of None \<Rightarrow> None | Some l \<Rightarrow> arrayAt lineStarts (l - 1));
          prefix =
            (case getScriptSnapshot env name of
               None \<Rightarrow> []
             | Some getText \<Rightarrow>
                 let lineEnd =
                       (case line f of
                          None \<Rightarrow> Some (fileEnd file)
                        | Some l \<Rightarrow>
                            if l - 1 < int (length lineStarts) - 1 then arrayAt lineStarts l
                            else Some (fileEnd file))
                 in takeWhile (\<lambda>c. c = CHR '' '' \<or> c = CHR 0x09) (getText lineStart lineEnd))
      in \<lparr>description = ''Disable rule '' @ [CHR 0x27] @ showRuleId (ruleId f) @ [CHR 0x27],
          fixName = ''eslint:disable:'' @ showRuleId (ruleId f),
          changes = [\<lparr>changesFileName = name,
                       textChanges =
                         [\<lparr>newText = prefix @ ''// eslint-disable-next-line '' @
                              showRuleId (ruleId f) @ [CHR 0x0A],
                            changeStart = lineStart, changeLength = 0\<rparr>]\<rparr>],
          fixId = None, fixAllDescription = None\<rparr>)"

text \<open>
  The actions that \<^verbatim>\<open>getCodeFixesAtPosition\<close> pushes for a fixable problem: the
  single fix, tagged with \<^verbatim>\<open>fixId\<close> and \<^verbatim>\<open>fixAllDescription\<close> when the rule-scoped
  fix-all exists, and the fix-all for the whole file. The rule-scoped fix-all itself is
  computed and tested, not pushed. \<open>rule\<close> is the truthy \<^verbatim>\<open>problem.failure.ruleId\<close>.
\<close>

definition fixableActions :: "Problem \<Rightarrow> string \<Rightarrow> ProblemMap \<Rightarrow> string \<Rightarrow> error + CodeFixAction list" where
  "fixableActions problem rule documentFixes name =
     (if fixable problem \<and> fixOf (failure problem) \<noteq> NoFix then
        (case getRuleFailureQuickFix (failure problem) name of
           Inl e \<Rightarrow> Inl e
         | Inr codeFixAction \<Rightarrow>
             (case getRuleFailureFixAllQuickFix rule documentFixes name of
                Inl e \<Rightarrow> Inl e
              | Inr fixAll \<Rightarrow>
                  let tagged =
                        (if fixAll \<noteq> None
                         then codeFixAction
                                \<lparr>fixId := Some (fromFailure (failure problem)),
                                 fixAllDescription := Some (''Fix all '' @ [CHR 0x27] @ rule @ [CHR 0x27])\<rparr>
                         else codeFixAction)
                  in (case getFixAllAutoFixableQuickFix documentFixes name of
                        Inl e \<Rightarrow> Inl e
                      | Inr all \<Rightarrow> Inr [tagged, all])))
      else Inr [])"

text \<open>
  \<^verbatim>\<open>getCodeFixesAtPosition\<close>. \<open>delegate\<close> is the host's own operation (its format
  options and preferences are passed through and not read). Nothing is caught here: a
  TypeError leaves the function.
\<close>

definition getCodeFixesAtPosition ::
  "Env \<Rightarrow> Config \<Rightarrow> (string \<Rightarrow> int \<Rightarrow> int \<Rightarrow> int list \<Rightarrow> CodeFixAction list) \<Rightarrow>
   string \<Rightarrow> int \<Rightarrow> int \<Rightarrow> int list \<Rightarrow> PluginState \<Rightarrow> error + (CodeFixAction list \<times> PluginState)" where
  "getCodeFixesAtPosition env cfg delegate name start end' errorCodes st =
     (let fixes = delegate name start end' errorCodes in
      if suppressWhileTypeErrorsPresent cfg \<and> fixes \<noteq> [] then Inr (fixes, st)
      else
        let st1 = info (Info (''getCodeFixes '' @
                     (case errorCodes of [] \<Rightarrow> ''undefined'' | c # _ \<Rightarrow> showInt c))) st;
            st2 = info (InfoFixes fixes) st1
        in case codeFixActions st2 name of
             None \<Rightarrow> Inr (fixes, st2)
           | Some documentFixes \<Rightarrow>
               (case ProblemMap_get documentFixes (Num start) (Num end') of
                  None \<Rightarrow> Inr (fixes, st2)
                | Some problem \<Rightarrow>
                    (case ruleId (failure problem) of
                       None \<Rightarrow> Inr (fixes, st2)
                     | Some rule \<Rightarrow>
                         if rule = [] then Inr (fixes, st2)
                         else
                           (case fixableActions problem rule documentFixes name of
                              Inl e \<Rightarrow> Inl e
                            | Inr pushed \<Rightarrow>
                                Inr (fixes @ pushed @
                                       [getDisableRuleQuickFix env (failure problem) name
                                          (getSourceFile env name)], st2)))))"

subsection \<open>Diagnostics\<close>

text \<open>ASCII lower case, which is what \<^verbatim>\<open>toLowerCase\<close> does on the names tested.\<close>

definition lowerChar :: "char \<Rightarrow> char" where
  "lowerChar c =
     (if 65 \<le> (of_char c :: nat) \<and> (of_char c :: nat) \<le> 90
      then char_of ((of_char c :: nat) + 32) else c)"

definition toLowerCase :: "string \<Rightarrow> string" where
  "toLowerCase s = map lowerChar s"

text \<open>\<^verbatim>\<open>toPackageManager\<close> (runner/index.ts).\<close>

definition toPackageManager :: "string option \<Rightarrow> PackageManager option" where
  "toPackageManager manager =
     (case manager of
        None \<Rightarrow> None
      | Some m \<Rightarrow>
          if toLowerCase m = ''npm'' then Some Npm
          else if toLowerCase m = ''pnpm'' then Some Pnpm
          else if toLowerCase m = ''yarn'' then Some Yarn
          else None)"

text \<open>The run configuration that \<^verbatim>\<open>getSemanticDiagnostics\<close> assembles.\<close>

definition runConfiguration :: "Config \<Rightarrow> RunConfiguration" where
  "runConfiguration cfg =
     \<lparr>allowInlineConfig = None, reportUnusedDisableDirectives = None,
      jsEnable = cfgJsEnable cfg,
      configFile = cfgConfigFile cfg,
      ignoreDefinitionFiles = cfgIgnoreDefinitionFiles cfg,
      exclude = (case cfgExclude cfg of
                   ExcludeAbsent \<Rightarrow> []
                 | ExcludeString s \<Rightarrow> (if s = [] then [] else [s])
                 | ExcludeArray ps \<Rightarrow> ps),
      nodePath = None,
      packageManager = toPackageManager (cfgPackageManager cfg),
      workspaceFolderPath = None\<rparr>"

definition warningDiagnostic :: "Env \<Rightarrow> SourceFile \<Rightarrow> string \<Rightarrow> Diagnostic" where
  "warningDiagnostic env file warning =
     \<lparr>dFile = Some file, dStart = Num 0, dLength = Num 1, dMessageText = warning,
      dCategory = Warning, dSource = Some (ESLINT_ERROR_SOURCE env),
      dCode = ESLINT_ERROR_CODE env\<rparr>"

text \<open>
  The warnings of a run: each is put in front of the diagnostics (\<^verbatim>\<open>unshift\<close>) when a
  configuration file exists, and logged otherwise.
\<close>

definition reportWarnings ::
  "Env \<Rightarrow> SourceFile \<Rightarrow> RunResult \<Rightarrow> Diagnostic list \<Rightarrow> PluginState \<Rightarrow> Diagnostic list \<times> PluginState" where
  "reportWarnings env file result diagnostics st =
     (let defaultTsconfigJsonPath = pathJoin env (getCurrentDirectory env) ''eslint.json'' in
      if (case whenTruthy (configFilePath result) of Some path \<Rightarrow> fileExists env path | None \<Rightarrow> False)
         \<or> fileExists env defaultTsconfigJsonPath
      then (fold (\<lambda>w ds. warningDiagnostic env file w # ds) (warnings result) diagnostics, st)
      else (diagnostics, fold (\<lambda>w. info (Info (''[eslint] '' @ w))) (warnings result) st))"

text \<open>
  The loop over the problems of the file: the diagnostic is pushed, then the problem is
  recorded.
\<close>

fun reportProblems ::
  "Env \<Rightarrow> Config \<Rightarrow> SourceFile \<Rightarrow> LintMessage list \<Rightarrow> Diagnostic list \<Rightarrow> PluginState \<Rightarrow>
   error + (Diagnostic list \<times> PluginState)" where
  "reportProblems env cfg file [] diagnostics st = Inr (diagnostics, st)"
| "reportProblems env cfg file (problem # rest) diagnostics st =
     (case makeDiagnostic env cfg problem file of
        Inl e \<Rightarrow> Inl e
      | Inr d \<Rightarrow>
          (case recordCodeAction st problem file of
             Inl e \<Rightarrow> Inl e
           | Inr st' \<Rightarrow> reportProblems env cfg file rest (diagnostics @ [d]) st'))"

text \<open>
  The inner \<^verbatim>\<open>catch (err)\<close> of \<^verbatim>\<open>getSemanticDiagnostics\<close>. Reading \<^verbatim>\<open>err.message\<close>
  of a thrown \<^verbatim>\<open>null\<close> or \<^verbatim>\<open>undefined\<close> is itself a TypeError, raised inside the
  outer \<^verbatim>\<open>try\<close>. Otherwise the message (or \<^verbatim>\<open>unknown error\<close>) is logged and the
  host's diagnostics are returned.
\<close>

definition runnerFailed :: "js_thrown \<Rightarrow> Diagnostic list \<Rightarrow> PluginState \<Rightarrow> error + (Diagnostic list \<times> PluginState)" where
  "runnerFailed err diagnostics st =
     (case err of
        ThrownNullish \<Rightarrow> Inl TypeError
      | ThrownObject m \<Rightarrow>
          Inr (diagnostics,
               info (Info (''eslint error '' @
                      (case m of Some s \<Rightarrow> s | None \<Rightarrow> ''unknown error''))) st))"

text \<open>
  The body of the outer \<^verbatim>\<open>try\<close>, after the registry of the file has been dropped.
  An \<open>Inl\<close> here is an exception raised inside that \<^verbatim>\<open>try\<close>.
\<close>

definition lintAndReport ::
  "Env \<Rightarrow> Config \<Rightarrow> string \<Rightarrow> Diagnostic list \<Rightarrow> PluginState \<Rightarrow> error + (Diagnostic list \<times> PluginState)" where
  "lintAndReport env cfg name diagnostics st =
     (if cfgIgnoreDefinitionFiles cfg \<and> suffix ''.d.ts'' name then Inr (diagnostics, st)
      else
        (case runEsLint env name (runConfiguration cfg) of
           Inl err \<Rightarrow> runnerFailed err diagnostics st
         | Inr result \<Rightarrow>
             let st1 = (case whenTruthy (configFilePath result) of
                          Some path \<Rightarrow> st\<lparr>watching := watching st @ [path]\<rparr>
                        | None \<Rightarrow> st);
                 file = getSourceFile env name;
                 (diagnostics1, st2) = reportWarnings env file result diagnostics st1
             in reportProblems env cfg file
                  (filterProblemsForFile (normalize env) name (lintResult result))
                  diagnostics1 st2))"

text \<open>
  \<^verbatim>\<open>getSemanticDiagnostics\<close>. The outer \<^verbatim>\<open>catch (e)\<close> logs \<^verbatim>\<open>e.toString()\<close> and
  \<^verbatim>\<open>e.stack\<close>, after which the function returns \<^verbatim>\<open>diagnostics\<close>; on a thrown
  \<^verbatim>\<open>null\<close> or \<^verbatim>\<open>undefined\<close> that logging is itself a TypeError, which leaves the
  function. A cut computation (\<open>UndefinedLineStart\<close>) stays cut. The only exception that
  reaches the outer handler in this development is the TypeError of the inner handler,
  raised before \<^verbatim>\<open>diagnostics\<close> or the state is changed any further.
\<close>

definition getSemanticDiagnostics ::
  "Env \<Rightarrow> Config \<Rightarrow> (string \<Rightarrow> Diagnostic list) \<Rightarrow> string \<Rightarrow> PluginState \<Rightarrow>
   error + (Diagnostic list \<times> PluginState)" where
  "getSemanticDiagnostics env cfg delegate name st =
     (let diagnostics = delegate name in
      if diagnostics \<noteq> [] \<and> suppressWhileTypeErrorsPresent cfg then Inr (diagnostics, st)
      else
        let st1 = info (Info (''Computing eslint semantic diagnostics for '' @
                               [CHR 0x27] @ name @ [CHR 0x27])) st;
            st2 = st1\<lparr>codeFixActions := (codeFixActions st1)(name := None)\<rparr>
        in case lintAndReport env cfg name diagnostics st2 of
             Inr r \<Rightarrow> Inr r
           | Inl UndefinedLineStart \<Rightarrow> Inl UndefinedLineStart
           | Inl (Thrown ThrownNullish) \<Rightarrow> Inl TypeError
           | Inl e \<Rightarrow> Inr (diagnostics, info (StackTrace e) (info (ServiceError e) st2)))"

subsection \<open>Decoration\<close>

text \<open>
  A language service is the host's own object or a proxy made by \<^verbatim>\<open>decorate\<close>; the
  proxy answers \<^verbatim>\<open>true\<close> for the marker symbol, which is private to the module, so
  no host object carries it.
\<close>

datatype LanguageService = HostService nat | EsLintProxy LanguageService

fun isEsLintLanguageServiceMarker :: "LanguageService \<Rightarrow> bool" where
  "isEsLintLanguageServiceMarker (HostService h) = False"
| "isEsLintLanguageServiceMarker (EsLintProxy target) = True"

text \<open>
  \<^verbatim>\<open>decorate\<close>, with the list that \<^verbatim>\<open>ts.getSupportedCodeFixes()\<close> returns as the
  state it patches. \<open>None\<close> is the \<^verbatim>\<open>undefined\<close> of the bare \<^verbatim>\<open>return;\<close>.
\<close>

definition decorate :: "int \<Rightarrow> string list \<Rightarrow> LanguageService \<Rightarrow> LanguageService option \<times> string list" where
  "decorate errorCode supportedCodeFixes languageService =
     (if isEsLintLanguageServiceMarker languageService then (None, supportedCodeFixes)
      else (Some (EsLintProxy languageService), supportedCodeFixes @ [showInt errorCode]))"

section \<open>runner/index.ts\<close>

subsection \<open>The process and the analyzer library\<close>

text \<open>
  \<^verbatim>\<open>console.warn\<close> holds the host's function or the closure \<^verbatim>\<open>captureWarnings\<close>
  that \<^verbatim>\<open>doRun\<close> builds around the function it found.
\<close>

datatype warn_fn = HostWarn nat | CaptureWarnings warn_fn

text \<open>
  The process-wide state that \<^verbatim>\<open>doRun\<close> touches: the working directory and
  \<^verbatim>\<open>console.warn\<close>; \<open>traced\<close> collects what the runner's \<^verbatim>\<open>trace\<close> callback received.
  \<open>directories\<close> tells which paths the process can enter with \<^verbatim>\<open>process.chdir\<close> at this
  moment: code outside the repository may remove a directory, and the directory the
  process is in may be gone already. A directory is identified with the path that names it.
\<close>

record Process =
  cwd :: string
  consoleWarn :: warn_fn
  traced :: "string list"
  directories :: "string \<Rightarrow> bool"

text \<open>
  A call into code outside the repository: what it returned or threw, the process state
  it left, and the messages it passed to \<^verbatim>\<open>console.warn\<close> while \<^verbatim>\<open>captureWarnings\<close>
  was installed.
\<close>

record 'a ExternalCall =
  returned :: "js_thrown + 'a"
  after :: Process
  warned :: "string list"

record FixOptions =
  filename :: string
  fix_flag :: bool
  optAllowInlineConfig :: "bool option"
  optReportUnusedDisableDirectives :: "bool option"

text \<open>
  The analyzer library (\<^verbatim>\<open>new library.CLIEngine(options)\<close>, then
  \<^verbatim>\<open>linter.executeOnFiles([filePath])\<close>); the engine is identified with its options.
\<close>

record Library =
  newCLIEngine :: "FixOptions \<Rightarrow> Process \<Rightarrow> FixOptions ExternalCall"
  executeOnFiles :: "FixOptions \<Rightarrow> string list \<Rightarrow> Process \<Rightarrow> LintReport ExternalCall"

text \<open>
  The operating system and the two path libraries as the runner uses them: the error
  that \<^verbatim>\<open>process.chdir(d)\<close> throws when \<open>d\<close> cannot be entered, \<^verbatim>\<open>path.relative\<close>, and
  \<^verbatim>\<open>minimatch(path, pattern, { dot: true })\<close>.
\<close>

record Os =
  chdirError :: "string \<Rightarrow> js_thrown"
  relative :: "string \<Rightarrow> string \<Rightarrow> string"
  minimatch :: "string \<Rightarrow> string \<Rightarrow> bool"

text \<open>\<^verbatim>\<open>contents: string | typescript.Program\<close>; of a program only its current directory is read.\<close>

datatype contents = Text string | Program string

text \<open>
  \<^verbatim>\<open>process.cwd()\<close> answers with the path the process holds, also when that directory
  is gone; \<^verbatim>\<open>process.chdir(d)\<close> throws unless \<open>d\<close> can be entered.
\<close>

definition process_cwd :: "Process \<Rightarrow> string" where
  "process_cwd p = cwd p"

definition process_chdir :: "Os \<Rightarrow> string \<Rightarrow> Process \<Rightarrow> error + Process" where
  "process_chdir os d p =
     (if directories p d then Inr (p\<lparr>cwd := d\<rparr>) else Inl (Thrown (chdirError os d)))"

definition traceMethod :: "string \<Rightarrow> string \<Rightarrow> Process \<Rightarrow> Process" where
  "traceMethod method msg p = p\<lparr>traced := traced p @ [''('' @ method @ '') '' @ msg]\<rparr>"

subsection \<open>Exclusion\<close>

definition emptyLintResult :: LintReport where
  "emptyLintResult =
     \<lparr>errorCount = 0, warningCount = 0, results = [], fixableErrorCount = 0,
      fixableWarningCount = 0, usedDeprecatedRules = []\<rparr>"

definition emptyResult :: RunResult where
  "emptyResult =
     \<lparr>lintResult = emptyLintResult, warnings = [], resultWorkspaceFolderPath = None,
      configFilePath = None\<rparr>"

definition testForExclusionPattern :: "Os \<Rightarrow> string \<Rightarrow> string \<Rightarrow> string option \<Rightarrow> bool" where
  "testForExclusionPattern os path pattern dir =
     (case whenTruthy dir of
        Some d \<Rightarrow>
          let relPath = relative os d path in
          if minimatch os relPath pattern then True
          else if relPath = path then False
          else minimatch os path pattern
      | None \<Rightarrow> minimatch os path pattern)"

definition fileIsExcluded :: "Os \<Rightarrow> RunConfiguration \<Rightarrow> string \<Rightarrow> string option \<Rightarrow> bool" where
  "fileIsExcluded os settings path dir =
     (if ignoreDefinitionFiles settings \<and> suffix ''.d.ts'' path then True
      else list_ex (\<lambda>pattern. testForExclusionPattern os path pattern dir) (exclude settings))"

text \<open>\<^verbatim>\<open>/\.(jsx?|mjs)$/i\<close>\<close>

definition isJsDocument :: "string \<Rightarrow> bool" where
  "isJsDocument path =
     (suffix ''.js'' (toLowerCase path) \<or> suffix ''.jsx'' (toLowerCase path)
      \<or> suffix ''.mjs'' (toLowerCase path))"

subsection \<open>doRun\<close>

text \<open>
  The working directory of the run: the configured workspace folder, or, when that is
  not truthy and \<^verbatim>\<open>contents\<close> is a program, the program's current directory.
\<close>

definition runDirectory :: "RunConfiguration \<Rightarrow> contents \<Rightarrow> string option" where
  "runDirectory configuration cont =
     (case whenTruthy (workspaceFolderPath configuration) of
        Some d \<Rightarrow> Some d
      | None \<Rightarrow>
          (case cont of
             Program d \<Rightarrow> Some d
           | Text t \<Rightarrow> workspaceFolderPath configuration))"

text \<open>
  The inner \<^verbatim>\<open>try ... finally\<close>: \<^verbatim>\<open>console.warn\<close> is replaced, the library is called,
  and \<^verbatim>\<open>console.warn\<close> is set back to what it was, whatever the library did.
\<close>

definition lintCaptured ::
  "Library \<Rightarrow> string \<Rightarrow> RunConfiguration \<Rightarrow> string list \<Rightarrow> Process \<Rightarrow> (error + RunResult) \<times> Process" where
  "lintCaptured library path configuration warns p =
     (let options = \<lparr>filename = path, fix_flag = False,
                      optAllowInlineConfig =
                        (if allowInlineConfig configuration = Some True then Some True else None),
                      optReportUnusedDisableDirectives =
                        (if reportUnusedDisableDirectives configuration = Some True then Some True else None)\<rparr>;
          originalConsoleWarn = consoleWarn p;
          p1 = p\<lparr>consoleWarn := CaptureWarnings originalConsoleWarn\<rparr>;
          made = newCLIEngine library options p1
      in case returned made of
           Inl e \<Rightarrow> (Inl (Thrown e), (after made)\<lparr>consoleWarn := originalConsoleWarn\<rparr>)
         | Inr linter \<Rightarrow>
             let p2 = traceMethod ''doRun'' (''Linting: start linting '' @ path) (after made);
                 ran = executeOnFiles library linter [path] p2
             in (case returned ran of
                   Inl e \<Rightarrow> (Inl (Thrown e), (after ran)\<lparr>consoleWarn := originalConsoleWarn\<rparr>)
                 | Inr result \<Rightarrow>
                     let p3 = traceMethod ''doRun'' ''Linting: ended linting'' (after ran)
                     in (Inr \<lparr>lintResult = result,
                              warnings = warns @ warned made @ warned ran,
                              resultWorkspaceFolderPath = workspaceFolderPath configuration,
                              configFilePath = None\<rparr>,
                         p3\<lparr>consoleWarn := originalConsoleWarn\<rparr>)))"

text \<open>The body of the outer \<^verbatim>\<open>try\<close>.\<close>

definition lintUnlessJs ::
  "Library \<Rightarrow> string \<Rightarrow> RunConfiguration \<Rightarrow> string list \<Rightarrow> Process \<Rightarrow> (error + RunResult) \<times> Process" where
  "lintUnlessJs library path configuration warns p =
     (if isJsDocument path \<and> \<not> jsEnable configuration
      then (Inr emptyResult,
            traceMethod ''doRun'' ''No linting: a JS document, but js linting is disabled'' p)
      else lintCaptured library path configuration warns p)"

text \<open>
  \<^verbatim>\<open>doRun\<close>. The result pairs what the call returned or threw with the process state it
  left. An exception of the restoring \<^verbatim>\<open>process.chdir\<close> in the \<^verbatim>\<open>finally\<close> block
  replaces the outcome of the body.
\<close>

definition doRun ::
  "Os \<Rightarrow> Library \<Rightarrow> string \<Rightarrow> contents \<Rightarrow> RunConfiguration \<Rightarrow> string list \<Rightarrow> Process \<Rightarrow>
   (error + RunResult) \<times> Process" where
  "doRun os library path cont configuration warns p =
     (let p0 = traceMethod ''doRun'' (''starting validation for '' @ path) p;
          dir = runDirectory configuration cont
      in if fileIsExcluded os configuration path dir
         then (Inr emptyResult,
               traceMethod ''doRun'' (''No linting: file '' @ path @ '' is excluded'') p0)
         else
           (case whenTruthy dir of
              None \<Rightarrow> lintUnlessJs library path configuration warns p0
            | Some d \<Rightarrow>
                let p1 = traceMethod ''doRun'' (''Changed directory to '' @ d) p0;
                    cwdToRestore = process_cwd p1
                in (case process_chdir os d p1 of
                      Inl e \<Rightarrow> (Inl e, p1)
                    | Inr p2 \<Rightarrow>
                        let (outcome, p3) = lintUnlessJs library path configuration warns p2 in
                        (case process_chdir os cwdToRestore p3 of
                           Inl e \<Rightarrow> (Inl e, p3)
                         | Inr p4 \<Rightarrow> (outcome, p4)))))"

subsection \<open>Loading the library\<close>

text \<open>
  Modelled from the spec: the MRU resolution cache. The class \<^verbatim>\<open>MruCache\<close>
  (\<^verbatim>\<open>./mruCache\<close>) is not among the sources; the spec describes a bounded,
  access-ordered cache that evicts the least recently used entry on overflow. The
  entries are kept most recent first. The runner stores a closure per file that only
  captures the resolved library path, so the stored value is that path.
\<close>

record MruCache =
  maxSize :: nat
  entries :: "(string \<times> string) list"

definition mru_has :: "MruCache \<Rightarrow> string \<Rightarrow> bool" where
  "mru_has c k = (map_of (entries c) k \<noteq> None)"

definition mru_get :: "MruCache \<Rightarrow> string \<Rightarrow> string option \<times> MruCache" where
  "mru_get c k =
     (case map_of (entries c) k of
        None \<Rightarrow> (None, c)
      | Some v \<Rightarrow> (Some v, c\<lparr>entries := (k, v) # filter (\<lambda>e. fst e \<noteq> k) (entries c)\<rparr>))"

definition mru_set :: "MruCache \<Rightarrow> string \<Rightarrow> string \<Rightarrow> MruCache" where
  "mru_set c k v =
     c\<lparr>entries := take (maxSize c) ((k, v) # filter (\<lambda>e. fst e \<noteq> k) (entries c))\<rparr>"

text \<open>
  The state of an \<^verbatim>\<open>EsLintRunner\<close>. In \<open>eslintPath2Library\<close> a stored \<open>None\<close> is the
  \<^verbatim>\<open>undefined\<close> that records a failed load; in \<open>globalPackageManagerPath\<close> it records a
  failed resolution.
\<close>

record RunnerState =
  eslintPath2Library :: "string \<rightharpoonup> Library option"
  document2LibraryCache :: MruCache
  globalPackageManagerPath :: "PackageManager \<rightharpoonup> string option"

text \<open>
  What loading reaches outside the repository: \<^verbatim>\<open>fs.existsSync\<close>, \<^verbatim>\<open>path.dirname\<close>,
  \<^verbatim>\<open>process.env.NODE_PATH\<close>, \<^verbatim>\<open>path.delimiter\<close>, the resolving subprocess
  (\<^verbatim>\<open>cp.spawnSync\<close> with the \<^verbatim>\<open>NODE_PATH\<close> of its environment and its working directory;
  its \<^verbatim>\<open>stdout\<close> as text, \<open>None\<close> when \<^verbatim>\<open>stdout\<close> is \<^verbatim>\<open>null\<close>), the global paths of npm
  and yarn, \<^verbatim>\<open>pnpm root -g\<close>, and \<^verbatim>\<open>require\<close>.
\<close>

record Loader =
  existsSync :: "string \<Rightarrow> bool"
  dirname :: "string \<Rightarrow> string"
  envNodePath :: "string option"
  delimiter :: string
  spawnResolve :: "string option \<Rightarrow> string \<Rightarrow> string option"
  resolveGlobalNodePath :: "string option"
  resolveGlobalYarnPath :: "string option"
  pnpmRoot :: "js_thrown + string"
  requireModule :: "string \<Rightarrow> js_thrown + Library"

text \<open>\<^verbatim>\<open>trim\<close>, on the ASCII white space and line terminators.\<close>

definition isSpace :: "char \<Rightarrow> bool" where
  "isSpace c = (c = CHR '' '' \<or> c = CHR 0x09 \<or> c = CHR 0x0A \<or> c = CHR 0x0B \<or> c = CHR 0x0C \<or> c = CHR 0x0D)"

definition trim :: "string \<Rightarrow> string" where
  "trim s = rev (dropWhile isSpace (rev (dropWhile isSpace s)))"

definition showPackageManager :: "PackageManager \<Rightarrow> string" where
  "showPackageManager m = (case m of Npm \<Rightarrow> ''npm'' | Pnpm \<Rightarrow> ''pnpm'' | Yarn \<Rightarrow> ''yarn'')"

text \<open>
  \<^verbatim>\<open>resolveEsLint\<close>: reading \<^verbatim>\<open>.stdout.toString()\<close> of a spawn without output is a
  TypeError.
\<close>

definition resolveEsLint :: "Loader \<Rightarrow> string option \<Rightarrow> string \<Rightarrow> Process \<Rightarrow> (error + string) \<times> Process" where
  "resolveEsLint ld np dir p =
     (let (childNodePath, p1) =
            (case whenTruthy np of
               None \<Rightarrow> (envNodePath ld, p)
             | Some n \<Rightarrow>
                 let v = (case whenTruthy (envNodePath ld) of
                            Some old \<Rightarrow> n @ delimiter ld @ old
                          | None \<Rightarrow> n)
                 in (Some v, traceMethod ''resolveEsLint'' (''NODE_PATH value is: '' @ v) p))
      in case spawnResolve ld childNodePath dir of
           None \<Rightarrow> (Inl TypeError, p1)
         | Some out \<Rightarrow> (Inr (trim out), p1))"

definition getGlobalPackageManagerPath ::
  "Loader \<Rightarrow> PackageManager option \<Rightarrow> RunnerState \<Rightarrow> Process \<Rightarrow>
   (error + string option) \<times> RunnerState \<times> Process" where
  "getGlobalPackageManagerPath ld manager rs p =
     (let m = (case manager of None \<Rightarrow> Npm | Some m' \<Rightarrow> m');
          p1 = traceMethod ''getGlobalPackageManagerPath''
                 (''Begin - Resolve Global Package Manager Path for: '' @ showPackageManager m) p;
          done = (\<lambda>rs'. (Inr (case globalPackageManagerPath rs' m of None \<Rightarrow> None | Some v \<Rightarrow> v),
                          rs',
                          traceMethod ''getGlobalPackageManagerPath''
                            (''Done - Resolve Global Package Manager Path for: '' @ showPackageManager m) p1))
      in if globalPackageManagerPath rs m = None then
           (case (case m of
                    Npm \<Rightarrow> Inr (resolveGlobalNodePath ld)
                  | Yarn \<Rightarrow> Inr (resolveGlobalYarnPath ld)
                  | Pnpm \<Rightarrow> (case pnpmRoot ld of Inl e \<Rightarrow> Inl e | Inr out \<Rightarrow> Inr (Some (trim out)))) of
              Inl e \<Rightarrow> (Inl (Thrown e), rs, p1)
            | Inr path \<Rightarrow>
                done (rs\<lparr>globalPackageManagerPath := (globalPackageManagerPath rs)(m \<mapsto> path)\<rparr>))
         else done rs)"

text \<open>\<^verbatim>\<open>this.resolveEsLint(getGlobalPath(), directory)\<close>\<close>

definition resolveGlobally ::
  "Loader \<Rightarrow> RunConfiguration \<Rightarrow> string \<Rightarrow> RunnerState \<Rightarrow> Process \<Rightarrow>
   (error + string) \<times> RunnerState \<times> Process" where
  "resolveGlobally ld configuration dir rs p =
     (case getGlobalPackageManagerPath ld (packageManager configuration) rs p of
        (Inl e, rs1, p1) \<Rightarrow> (Inl e, rs1, p1)
      | (Inr globalPath, rs1, p1) \<Rightarrow>
          (case resolveEsLint ld globalPath dir p1 of (r, p2) \<Rightarrow> (r, rs1, p2)))"

text \<open>
  \<^verbatim>\<open>loadLibrary\<close>. The first resolution and its fallback on an empty result are inside a
  \<^verbatim>\<open>try\<close>; whatever is thrown there leads to the same fallback once more, outside of
  it. The result is the array of warnings, or what was thrown.
\<close>

definition loadLibrary ::
  "Loader \<Rightarrow> string \<Rightarrow> RunConfiguration \<Rightarrow> string list \<Rightarrow> RunnerState \<Rightarrow> Process \<Rightarrow>
   (error + string list) \<times> RunnerState \<times> Process" where
  "loadLibrary ld path configuration warningsOutput rs p =
     (let p1 = traceMethod ''loadLibrary'' (''trying to load '' @ path) p;
          directory = dirname ld path;
          (np, warns) =
            (case whenTruthy (nodePath configuration) of
               None \<Rightarrow> (None, warningsOutput)
             | Some n \<Rightarrow>
                 if existsSync ld n then (Some n, warningsOutput)
                 else (None, warningsOutput @
                         [''The setting '' @ [CHR 0x27] @ ''eslint.nodePath'' @ [CHR 0x27] @
                          '' refers to '' @ [CHR 0x27] @ n @ [CHR 0x27] @
                          '', but this path does not exist. The setting will be ignored.'']));
          (first, p2) = resolveEsLint ld np (case np of Some n \<Rightarrow> n | None \<Rightarrow> directory) p1;
          (resolved, rs3, p3) =
            (case first of
               Inl e \<Rightarrow> resolveGlobally ld configuration directory rs p2
             | Inr esLintPath \<Rightarrow>
                 if esLintPath = [] then
                   (case resolveGlobally ld configuration directory rs p2 of
                      (Inl e, rs', p') \<Rightarrow> resolveGlobally ld configuration directory rs' p'
                    | (Inr esLintPath', rs', p') \<Rightarrow> (Inr esLintPath', rs', p'))
                 else (Inr esLintPath, rs, p2))
      in case resolved of
           Inl e \<Rightarrow> (Inl e, rs3, p3)
         | Inr esLintPath \<Rightarrow>
             (Inr warns,
              rs3\<lparr>document2LibraryCache := mru_set (document2LibraryCache rs3) path esLintPath\<rparr>,
              traceMethod ''loadLibrary'' (''Resolved eslint to '' @ esLintPath) p3))"

text \<open>
  The closure that \<^verbatim>\<open>loadLibrary\<close> stores for a resolved path: it loads the library
  once, catches a failing \<^verbatim>\<open>require\<close> and records it as \<^verbatim>\<open>undefined\<close>.
\<close>

definition loadCachedLibrary :: "Loader \<Rightarrow> string \<Rightarrow> RunnerState \<Rightarrow> Library option \<times> RunnerState" where
  "loadCachedLibrary ld esLintPath rs =
     (case eslintPath2Library rs esLintPath of
        None \<Rightarrow>
          (case requireModule ld esLintPath of
             Inl e \<Rightarrow> (None, rs\<lparr>eslintPath2Library := (eslintPath2Library rs)(esLintPath \<mapsto> None)\<rparr>)
           | Inr library \<Rightarrow>
               (Some library,
                rs\<lparr>eslintPath2Library := (eslintPath2Library rs)(esLintPath \<mapsto> Some library)\<rparr>))
      | Some library \<Rightarrow> (library, rs))"

definition getInstallFailureMessage :: "string \<Rightarrow> PackageManager \<Rightarrow> string" where
  "getInstallFailureMessage path m =
     ''Failed to load the ESLint library for '' @ [CHR 0x27] @ path @ [CHR 0x27] @ [CHR 0x0A] @
     ''To use ESLint, please install eslint using '' @ [CHR 0x27] @
       (case m of Npm \<Rightarrow> ''npm install eslint'' | Pnpm \<Rightarrow> ''pnpm install eslint''
        | Yarn \<Rightarrow> ''yarn add eslint'') @ [CHR 0x27] @
     '' or globally using '' @ [CHR 0x27] @
       (case m of Npm \<Rightarrow> ''npm install -g eslint'' | Pnpm \<Rightarrow> ''pnpm install -g eslint''
        | Yarn \<Rightarrow> ''yarn global add eslint'') @ [CHR 0x27] @ ''.'' @ [CHR 0x0A] @
     ''Be sure to restart your editor after installing eslint.''"

text \<open>
  \<^verbatim>\<open>runEsLint\<close> of the class \<^verbatim>\<open>EsLintRunner\<close>. Calling the \<^verbatim>\<open>undefined\<close> that a cache
  without the entry would hand out is a TypeError.
\<close>

definition EsLintRunner_runEsLint ::
  "Os \<Rightarrow> Loader \<Rightarrow> string \<Rightarrow> contents \<Rightarrow> RunConfiguration \<Rightarrow> RunnerState \<Rightarrow> Process \<Rightarrow>
   (error + RunResult) \<times> RunnerState \<times> Process" where
  "EsLintRunner_runEsLint os ld path cont configuration rs p =
     (let p1 = traceMethod ''runEsLint'' ''start'' p;
          (loaded, rs1, p2) =
            (if \<not> mru_has (document2LibraryCache rs) path
             then loadLibrary ld path configuration [] rs p1
             else (Inr [], rs, p1))
      in case loaded of
           Inl e \<Rightarrow> (Inl e, rs1, p2)
         | Inr warns \<Rightarrow>
             let p3 = traceMethod ''runEsLint'' ''Loaded eslint library'' p2 in
             if \<not> mru_has (document2LibraryCache rs1) path then (Inr emptyResult, rs1, p3)
             else
               (case mru_get (document2LibraryCache rs1) path of
                  (None, c) \<Rightarrow> (Inl TypeError, rs1\<lparr>document2LibraryCache := c\<rparr>, p3)
                | (Some esLintPath, c) \<Rightarrow>
                    (case loadCachedLibrary ld esLintPath (rs1\<lparr>document2LibraryCache := c\<rparr>) of
                       (None, rs2) \<Rightarrow>
                         (Inr \<lparr>lintResult = emptyLintResult,
                               warnings = [getInstallFailureMessage path
                                             (case packageManager configuration of
                                                None \<Rightarrow> Npm | Some m \<Rightarrow> m)],
                               resultWorkspaceFolderPath = None, configFilePath = None\<rparr>,
                          rs2, p3)
                     | (Some library, rs2) \<Rightarrow>
                         let p4 = traceMethod ''runEsLint'' (''About to validate '' @ path) p3 in
                         (case doRun os library path cont configuration warns p4 of
                            (r, p5) \<Rightarrow> (r, rs2, p5)))))"

text \<open>
  The runner as \<^verbatim>\<open>getSemanticDiagnostics\<close> calls it: \<^verbatim>\<open>this.runner.runEsLint(fileName,
  this.getProgram(), configuration)\<close>, on a runner and a process in a given state. A
  TypeError reaches a \<^verbatim>\<open>catch\<close> clause as an object with the engine's message.
\<close>

definition runnerOf ::
  "Os \<Rightarrow> Loader \<Rightarrow> string \<Rightarrow> string \<Rightarrow> RunnerState \<Rightarrow> Process \<Rightarrow>
   string \<Rightarrow> RunConfiguration \<Rightarrow> js_thrown + RunResult" where
  "runnerOf os ld programDirectory typeErrorMessage rs p name configuration =
     (case fst (EsLintRunner_runEsLint os ld name (Program programDirectory) configuration rs p) of
        Inr result \<Rightarrow> Inr result
      | Inl (Thrown v) \<Rightarrow> Inl v
      | Inl e \<Rightarrow> Inl (ThrownObject (Some typeErrorMessage)))"

section \<open>Proof notions\<close>

text \<open>
  The invariant of the loop on well-shaped findings: the array built so far is not empty
  and none of its ranges ends later than its last one.
\<close>

definition bounded :: "Fix list \<Rightarrow> bool" where
  "bounded acc = (acc \<noteq> [] \<and> list_all (\<lambda>x. range1 x \<le> range1 (last acc)) acc)"

text \<open>
  The requests on which \<^verbatim>\<open>getSemanticDiagnostics\<close> reaches the call of the runner:
  not suppressed, and not a definition file that is to be ignored.
\<close>

definition runnerInvoked :: "Config \<Rightarrow> Diagnostic list \<Rightarrow> string \<Rightarrow> bool" where
  "runnerInvoked cfg diagnostics name \<longleftrightarrow>
     \<not> (diagnostics \<noteq> [] \<and> suppressWhileTypeErrorsPresent cfg) \<and>
     \<not> (cfgIgnoreDefinitionFiles cfg \<and> suffix ''.d.ts'' name)"

text \<open>
  A problem whose fix is one replacement object, as the declared type of \<^verbatim>\<open>fix\<close>
  has it; a problem whose fix is an array of replacements; the fixable problems of a rule; the file change that the rule-scoped fix-all
  holds for a problem; and the action it returns.
\<close>

definition singleFix :: "Problem \<Rightarrow> bool" where
  "singleFix p = (case fixOf (failure p) of OneFix fx \<Rightarrow> True | _ \<Rightarrow> False)"

definition arrayFix :: "Problem \<Rightarrow> bool" where
  "arrayFix p = (case fixOf (failure p) of FixArray fs \<Rightarrow> True | _ \<Rightarrow> False)"

definition carriesRule :: "string \<Rightarrow> Problem \<Rightarrow> bool" where
  "carriesRule ruleName p = (fixable p \<and> ruleId (failure p) = Some ruleName)"

definition changeOf :: "string \<Rightarrow> Problem \<Rightarrow> FileTextChanges" where
  "changeOf name p =
     \<lparr>changesFileName = name,
      textChanges = map convertFixToTextChange (getReplacements (fixOf (failure p)))\<rparr>"

definition fixAllAction :: "string \<Rightarrow> string \<Rightarrow> Problem list \<Rightarrow> CodeFixAction" where
  "fixAllAction ruleName name ps =
     \<lparr>description = ''Fix all '' @ [CHR 0x27] @ ruleName @ [CHR 0x27],
      fixName = ''eslint:fix-all:'' @ ruleName,
      changes = map (changeOf name) (filter (carriesRule ruleName) ps),
      fixId = None, fixAllDescription = None\<rparr>"

section \<open>Example inputs\<close>

definition mkFix :: "int \<Rightarrow> int \<Rightarrow> string \<Rightarrow> Fix" where
  "mkFix s e t = \<lparr>range0 = s, range1 = e, fixText = t\<rparr>"

definition mkFailure :: "string \<Rightarrow> int \<Rightarrow> int \<Rightarrow> fix_value \<Rightarrow> LintMessage" where
  "mkFailure rule l c fx =
     \<lparr>ruleId = Some rule, message = ''msg'', severity = 2, line = Some l, column = Some c,
      endLine = None, endColumn = None, fixOf = fx\<rparr>"

text \<open>A finding whose two replacements are disjoint but listed out of position order.\<close>

definition unorderedFailure :: LintMessage where
  "unorderedFailure = mkFailure ''r1'' 1 1 (FixArray [mkFix 50 60 ''a'', mkFix 0 1 ''b''])"

definition orderedFailure :: LintMessage where
  "orderedFailure = mkFailure ''r1'' 1 1 (FixArray [mkFix 0 1 ''b'', mkFix 50 60 ''a''])"

definition insideFailure :: LintMessage where
  "insideFailure = mkFailure ''r2'' 1 1 (OneFix (mkFix 55 56 ''c''))"

definition laterFailure :: LintMessage where
  "laterFailure = mkFailure ''r3'' 1 1 (OneFix (mkFix 61 70 ''d''))"

text \<open>
  A two-line snapshot, \<^verbatim>\<open>abcdefghi\<close>, a line feed, \<^verbatim>\<open>wxyz\<close>: line starts 0 and 10, line
  ends 9 and 14.
\<close>

definition sampleFile :: SourceFile where
  "sampleFile =
     \<lparr>fileName = ''a.ts'', fileEnd = 14, getLineStarts = [0, 10],
      getLineEndOfPosition = (\<lambda>pos. if pos < 10 then Num 9 else Num 14),
      getPositionOfLineAndCharacter = (\<lambda>l c. Num ((if l = 0 then 0 else 10) + c))\<rparr>"

text \<open>A finding that starts on line 2 and whose end is reported on line 1.\<close>

definition backwardsFailure :: LintMessage where
  "backwardsFailure =
     \<lparr>ruleId = Some ''r1'', message = ''msg'', severity = 2, line = Some 2, column = Some 1,
      endLine = Some 1, endColumn = Some 1, fixOf = NoFix\<rparr>"

text \<open>
  An empty snapshot: one line start, and a line end that TypeScript reports as
  \<^verbatim>\<open>NaN\<close>. Findings by their four coordinates.
\<close>

definition emptyFile :: SourceFile where
  "emptyFile =
     \<lparr>fileName = ''empty.ts'', fileEnd = 0, getLineStarts = [0],
      getLineEndOfPosition = (\<lambda>pos. NaN),
      getPositionOfLineAndCharacter = (\<lambda>l c. Num c)\<rparr>"

definition mkSpanFailure :: "int option \<Rightarrow> int option \<Rightarrow> int option \<Rightarrow> int option \<Rightarrow> LintMessage" where
  "mkSpanFailure l c el ec =
     \<lparr>ruleId = Some ''r1'', message = ''msg'', severity = 2, line = l, column = c,
      endLine = el, endColumn = ec, fixOf = NoFix\<rparr>"

definition emptyState :: PluginState where
  "emptyState = \<lparr>codeFixActions = Map.empty, logged = [], watching = []\<rparr>"

text \<open>A plugin environment around a given runner, and a configuration.\<close>

definition sampleEnv :: "(string \<Rightarrow> RunConfiguration \<Rightarrow> js_thrown + RunResult) \<Rightarrow> Env" where
  "sampleEnv run =
     \<lparr>ESLINT_ERROR_CODE = 100000, ESLINT_ERROR_SOURCE = ''eslint'', runEsLint = run,
      getSourceFile = (\<lambda>name. sampleFile), getCurrentDirectory = ''/proj'',
      fileExists = (\<lambda>path. False), normalize = (\<lambda>path. path),
      pathJoin = (\<lambda>a b. a @ ''/'' @ b), getScriptSnapshot = (\<lambda>name. None)\<rparr>"

definition sampleConfig :: "bool \<Rightarrow> Config" where
  "sampleConfig suppress =
     \<lparr>suppressWhileTypeErrorsPresent = suppress, cfgIgnoreDefinitionFiles = True,
      cfgJsEnable = False, cfgExclude = ExcludeAbsent, cfgPackageManager = None,
      alwaysShowRuleFailuresAsWarnings = None, cfgConfigFile = None\<rparr>"

definition hostDiagnostic :: Diagnostic where
  "hostDiagnostic =
     \<lparr>dFile = None, dStart = Num 3, dLength = Num 2, dMessageText = ''type error'',
      dCategory = Error, dSource = None, dCode = 2322\<rparr>"

definition hostFix :: CodeFixAction where
  "hostFix =
     \<lparr>description = ''host fix'', fixName = ''host'', changes = [], fixId = None,
      fixAllDescription = None\<rparr>"

text \<open>A report with one finding in \<^verbatim>\<open>a.ts\<close>, and runners that return it or throw.\<close>

definition sampleReport :: LintReport where
  "sampleReport =
     \<lparr>errorCount = 1, warningCount = 0,
      results = [\<lparr>filePath = ''a.ts'', messages = [insideFailure]\<rparr>],
      fixableErrorCount = 1, fixableWarningCount = 0, usedDeprecatedRules = []\<rparr>"

definition lintingRunner :: "string \<Rightarrow> RunConfiguration \<Rightarrow> js_thrown + RunResult" where
  "lintingRunner name configuration =
     Inr \<lparr>lintResult = sampleReport, warnings = [], resultWorkspaceFolderPath = None,
          configFilePath = None\<rparr>"

definition throwingRunner :: "js_thrown \<Rightarrow> string \<Rightarrow> RunConfiguration \<Rightarrow> js_thrown + RunResult" where
  "throwingRunner err name configuration = Inl err"

text \<open>Registries: two single-object fixes of one rule, and two array fixes of one rule.\<close>

definition quoteA :: LintMessage where
  "quoteA = mkFailure ''quotemark'' 1 1 (OneFix (mkFix 0 2 ''x''))"

definition quoteB :: LintMessage where
  "quoteB = mkFailure ''quotemark'' 2 1 (OneFix (mkFix 10 12 ''y''))"

definition quoteRegistry :: ProblemMap where
  "quoteRegistry =
     [(key (Num 0) (Num 0), \<lparr>failure = quoteA, fixable = True\<rparr>),
      (key (Num 10) (Num 10), \<lparr>failure = quoteB, fixable = True\<rparr>)]"

definition arrayA :: LintMessage where
  "arrayA = mkFailure ''quotemark'' 1 1 (FixArray [mkFix 0 2 ''x''])"

definition arrayB :: LintMessage where
  "arrayB = mkFailure ''quotemark'' 2 1 (FixArray [mkFix 10 12 ''y''])"

definition arrayRegistry :: ProblemMap where
  "arrayRegistry =
     [(key (Num 0) (Num 0), \<lparr>failure = arrayA, fixable = isFixable arrayA\<rparr>),
      (key (Num 10) (Num 10), \<lparr>failure = arrayB, fixable = isFixable arrayB\<rparr>)]"

text \<open>
  An operating system with the directories \<^verbatim>\<open>/home\<close> and \<^verbatim>\<open>/proj\<close>, patterns that
  match only themselves, a library that reports one error and leaves the process in
  another directory with another \<^verbatim>\<open>console.warn\<close>, and one that throws.
\<close>

definition sampleOs :: Os where
  "sampleOs =
     \<lparr>chdirError = (\<lambda>d. ThrownObject (Some ''ENOENT'')),
      relative = (\<lambda>d path. if prefix (d @ ''/'') path then drop (length d + 1) path else path),
      minimatch = (\<lambda>path pattern. path = pattern)\<rparr>"

definition sampleProcess :: Process where
  "sampleProcess =
     \<lparr>cwd = ''/home'', consoleWarn = HostWarn 0, traced = [],
      directories = (\<lambda>d. d = ''/home'' \<or> d = ''/proj'')\<rparr>"







definition quoteState :: PluginState where
  "quoteState = \<lparr>codeFixActions = [''a.ts'' \<mapsto> quoteRegistry], logged = [], watching = []\<rparr>"

definition arrayState :: PluginState where
  "arrayState = \<lparr>codeFixActions = [''a.ts'' \<mapsto> arrayRegistry], logged = [], watching = []\<rparr>"

text \<open>A host that has no fixes of its own.\<close>

definition noHostFixes :: "string \<Rightarrow> int \<Rightarrow> int \<Rightarrow> int list \<Rightarrow> CodeFixAction list" where
  "noHostFixes name start end' errorCodes = []"

text \<open>
  A loader that resolves every library to one path and whose \<^verbatim>\<open>require\<close> of it throws
  or succeeds; a runner that has loaded nothing yet; an environment in which
  \<^verbatim>\<open>/proj/eslint.json\<close> exists.
\<close>

definition sampleLoader :: "(string \<Rightarrow> js_thrown + Library) \<Rightarrow> Loader" where
  "sampleLoader req =
     \<lparr>existsSync = (\<lambda>path. False), dirname = (\<lambda>path. ''/proj''), envNodePath = None,
      delimiter = '':'',
      spawnResolve = (\<lambda>np dir. Some (''/proj/node_modules/eslint/lib/api.js'' @ [CHR 0x0A])),
      resolveGlobalNodePath = None, resolveGlobalYarnPath = None, pnpmRoot = Inr [],
      requireModule = req\<rparr>"

definition crashingRequire :: "string \<Rightarrow> js_thrown + Library" where
  "crashingRequire path = Inl (ThrownObject (Some ''Cannot find module''))"

definition freshRunner :: RunnerState where
  "freshRunner =
     \<lparr>eslintPath2Library = Map.empty,
      document2LibraryCache = \<lparr>maxSize = 100, entries = []\<rparr>,
      globalPackageManagerPath = Map.empty\<rparr>"

definition configuredEnv :: "(string \<Rightarrow> RunConfiguration \<Rightarrow> js_thrown + RunResult) \<Rightarrow> Env" where
  "configuredEnv run = (sampleEnv run)\<lparr>fileExists := (\<lambda>path. path = ''/proj/eslint.json'')\<rparr>"

text \<open>
  The runner as the plugin calls it when the library fails to load, and a host that
  reports one diagnostic of its own.
\<close>

definition crashedRunner :: "string \<Rightarrow> RunConfiguration \<Rightarrow> js_thrown + RunResult" where
  "crashedRunner =
     runnerOf sampleOs (sampleLoader crashingRequire) ''/proj'' ''TypeError'' freshRunner sampleProcess"

definition oneHostDiagnostic :: "string \<Rightarrow> Diagnostic list" where
  "oneHostDiagnostic name = [hostDiagnostic]"

section \<open>Properties of the non-overlapping resolver\<close>

lemma walk_retained:
  "nonOverlapping \<noteq> [] \<Longrightarrow> list_all (\<lambda>f. getReplacements (fixOf f) \<noteq> []) rest \<Longrightarrow>
   walk nonOverlapping rest =
     Inr (nonOverlapping @ concat (map (\<lambda>f. getReplacements (fixOf f)) (retained nonOverlapping rest)))"
  by (induction rest arbitrary: nonOverlapping) (auto simp: Let_def)

lemma orderedRanges_bounds:
  "orderedRanges (r # rs) \<Longrightarrow> x \<in> set (r # rs) \<Longrightarrow>
     range0 r \<le> range0 x \<and> range1 x \<le> range1 (last (r # rs))"
proof (induction rs arbitrary: r x)
  case Nil
  then show ?case by simp
next
  case (Cons s rs)
  from Cons.prems(1) have o: "range0 r \<le> range1 r" "range1 r \<le> range0 s" "orderedRanges (s # rs)"
    by simp_all
  have s: "range0 s \<le> range1 s" using o(3) by (cases rs) simp_all
  show ?case
  proof (cases "x = r")
    case True
    have "range1 s \<le> range1 (last (s # rs))" using Cons.IH [OF o(3), of s] by simp
    with True o s show ?thesis by simp
  next
    case False
    with Cons.prems(2) have "x \<in> set (s # rs)" by simp
    from Cons.IH [OF o(3) this] o s show ?thesis by simp
  qed
qed

lemma bounded_ordered: "rs \<noteq> [] \<Longrightarrow> orderedRanges rs \<Longrightarrow> bounded rs"
  using orderedRanges_bounds by (cases rs) (auto simp: bounded_def list_all_iff)

lemma bounded_push:
  assumes "bounded acc" "rs \<noteq> []" "orderedRanges rs" "\<not> overlaps (last acc) (hd rs)"
  shows "bounded (acc @ rs)"
    and "\<forall>x \<in> set acc. \<forall>b \<in> set rs. range1 x < range0 b"
proof -
  obtain r rs' where rs: "rs = r # rs'" using assms(2) by (cases rs) auto
  have lt: "range1 (last acc) < range0 r" using assms(4) rs by (simp add: overlaps_def)
  have b: "\<And>x. x \<in> set rs \<Longrightarrow> range0 r \<le> range0 x \<and> range1 x \<le> range1 (last rs)"
    using orderedRanges_bounds [of r rs'] assms(3) rs by simp
  have r: "range0 r \<le> range1 r" using assms(3) rs by (cases rs') simp_all
  have a: "\<And>x. x \<in> set acc \<Longrightarrow> range1 x \<le> range1 (last acc)"
    using assms(1) by (simp add: bounded_def list_all_iff)
  show "\<forall>x \<in> set acc. \<forall>b \<in> set rs. range1 x < range0 b"
    using a b lt by fastforce
  have "range1 r \<le> range1 (last rs)" using b [of r] rs by simp
  then have "\<And>x. x \<in> set acc \<Longrightarrow> range1 x \<le> range1 (last rs)"
    using a lt r by fastforce
  then show "bounded (acc @ rs)"
    using b assms(2) by (auto simp: bounded_def list_all_iff)
qed

lemma retained_separated:
  "bounded acc \<Longrightarrow>
   list_all (\<lambda>f. getReplacements (fixOf f) \<noteq> [] \<and> orderedRanges (getReplacements (fixOf f))) rest \<Longrightarrow>
   (\<forall>B \<in> set (retained acc rest). \<forall>x \<in> set acc. \<forall>b \<in> set (getReplacements (fixOf B)). range1 x < range0 b)
   \<and> sorted_wrt separated (retained acc rest)"
proof (induction rest arbitrary: acc)
  case Nil
  then show ?case by simp
next
  case (Cons f rest)
  let ?rs = "getReplacements (fixOf f)"
  from Cons.prems(2) have f: "?rs \<noteq> []" "orderedRanges ?rs"
    and rest: "list_all (\<lambda>f. getReplacements (fixOf f) \<noteq> [] \<and> orderedRanges (getReplacements (fixOf f))) rest"
    by simp_all
  have ne: "acc \<noteq> []" using Cons.prems(1) by (simp add: bounded_def)
  show ?case
  proof (cases "overlaps (last acc) (hd ?rs)")
    case True
    then have "retained acc (f # rest) = retained acc rest" using ne f by simp
    with Cons.IH [OF Cons.prems(1) rest] show ?thesis by simp
  next
    case False
    then have eq: "retained acc (f # rest) = f # retained (acc @ ?rs) rest" using ne f by simp
    note push = bounded_push [OF Cons.prems(1) f False]
    note ih = Cons.IH [OF push(1) rest]
    have "\<forall>B \<in> set (retained (acc @ ?rs) rest). separated f B"
      using ih by (auto simp: separated_def list_all_iff)
    with ih push(2) show ?thesis unfolding eq by auto
  qed
qed

lemma retained_subseq: "subseq (retained acc rest) rest"
  by (induction rest arbitrary: acc) (auto simp: Let_def)

lemma sortFailures_total:
  assumes "list_all (\<lambda>f. getReplacements (fixOf f) \<noteq> []) failures"
  shows "sortFailures failures = Inr (sort_key startKey failures)"
proof -
  have "\<not> list_ex (\<lambda>f. firstStart f = Inl TypeError) failures"
    using assms by (auto simp: list_all_iff list_ex_iff firstStart_def getReplacement_def Let_def)
  moreover have "length failures < 2 \<Longrightarrow> sort_key startKey failures = failures"
    by (cases failures) (auto simp: less_Suc_eq)
  ultimately show ?thesis by (simp add: sortFailures_def)
qed

lemma startKey_first:
  "getReplacements (fixOf f) \<noteq> [] \<Longrightarrow> startKey f = range0 (hd (getReplacements (fixOf f)))"
  by (cases "getReplacements (fixOf f)") (auto simp: startKey_def firstStart_def getReplacement_def Let_def)

lemma sortFailures_ascending:
  assumes "list_all (\<lambda>f. getReplacements (fixOf f) \<noteq> []) failures"
  shows "sorted (map (\<lambda>f. range0 (hd (getReplacements (fixOf f)))) (sort_key startKey failures))"
proof -
  have "list_all (\<lambda>f. getReplacements (fixOf f) \<noteq> []) (sort_key startKey failures)"
    using assms by (simp add: list_all_iff)
  then have keys: "map (\<lambda>f. range0 (hd (getReplacements (fixOf f)))) (sort_key startKey failures)
      = map startKey (sort_key startKey failures)"
    by (auto simp: list_all_iff startKey_first)
  show ?thesis unfolding keys by (rule sorted_sort_key)
qed

lemma resolver_result:
  assumes "list_all (\<lambda>f. getReplacements (fixOf f) \<noteq> []) failures"
  shows "getNonOverlappingReplacements failures =
           Inr (concat (map (\<lambda>f. getReplacements (fixOf f)) (retainedFailures failures)))"
proof -
  let ?s = "sort_key startKey failures"
  note sf = sortFailures_total [OF assms]
  have all: "list_all (\<lambda>f. getReplacements (fixOf f) \<noteq> []) ?s"
    using assms by (simp add: list_all_iff)
  show ?thesis
  proof (cases ?s)
    case Nil
    then show ?thesis by (simp add: getNonOverlappingReplacements_def retainedFailures_def sf)
  next
    case (Cons first rest)
    with all have "getReplacements (fixOf first) \<noteq> []"
      "list_all (\<lambda>f. getReplacements (fixOf f) \<noteq> []) rest" by simp_all
    from walk_retained [OF this] Cons show ?thesis
      by (simp add: getNonOverlappingReplacements_def retainedFailures_def sf)
  qed
qed

lemma resolver_subseq:
  assumes "list_all (\<lambda>f. getReplacements (fixOf f) \<noteq> []) failures"
  shows "subseq (retainedFailures failures) (sort_key startKey failures)"
  by (cases "sort_key startKey failures")
    (simp_all add: retainedFailures_def sortFailures_total [OF assms] retained_subseq)

lemma resolver_first:
  assumes "list_all (\<lambda>f. getReplacements (fixOf f) \<noteq> []) failures" and "failures \<noteq> []"
  shows "retainedFailures failures \<noteq> [] \<and>
         hd (retainedFailures failures) = hd (sort_key startKey failures)"
proof -
  have "sort_key startKey failures \<noteq> []" using assms(2) by (metis length_sort length_0_conv)
  then show ?thesis
    by (cases "sort_key startKey failures")
      (simp_all add: retainedFailures_def sortFailures_total [OF assms(1)])
qed

lemma walk_step:
  "acc \<noteq> [] \<Longrightarrow> getReplacements (fixOf f) \<noteq> [] \<Longrightarrow>
   walk acc (f # rest) =
     (if range1 (last acc) < range0 (hd (getReplacements (fixOf f)))
      then walk (acc @ getReplacements (fixOf f)) rest else walk acc rest)"
  by (simp add: overlaps_def not_le)

lemma resolver_separated:
  assumes some: "list_all (\<lambda>f. getReplacements (fixOf f) \<noteq> []) failures"
    and ord: "list_all (\<lambda>f. orderedRanges (getReplacements (fixOf f))) failures"
  shows "sorted_wrt separated (retainedFailures failures)"
proof -
  let ?s = "sort_key startKey failures"
  note sf = sortFailures_total [OF some]
  have wf: "list_all (\<lambda>f. getReplacements (fixOf f) \<noteq> [] \<and> orderedRanges (getReplacements (fixOf f))) ?s"
    using some ord by (simp add: list_all_iff)
  show ?thesis
  proof (cases ?s)
    case Nil
    then show ?thesis by (simp add: retainedFailures_def sf)
  next
    case (Cons first rest)
    with wf have first: "getReplacements (fixOf first) \<noteq> []" "orderedRanges (getReplacements (fixOf first))"
      and rest: "list_all (\<lambda>f. getReplacements (fixOf f) \<noteq> [] \<and> orderedRanges (getReplacements (fixOf f))) rest"
      by simp_all
    from retained_separated [OF bounded_ordered [OF first] rest]
    show ?thesis using Cons
      by (auto simp: retainedFailures_def sf separated_def list_all_iff)
  qed
qed

lemmas resolver_eval =
  getNonOverlappingReplacements_def retainedFailures_def sortFailures_def firstStart_def
  getReplacement_def getReplacements_def startKey_def overlaps_def mkFix_def mkFailure_def

text \<open>
  Claim C1, as amended. For every list of findings that each carry at least one
  replacement: \<open>sortFailures\<close> does not throw and returns the findings in ascending order
  of the start offset of their first replacement (a stable permutation of the input);
  the result of \<open>getNonOverlappingReplacements\<close> is the concatenation, in that order, of
  the replacements of the retained findings; the first finding of the sorted list is
  always retained; a later finding is retained exactly when the end of the last
  replacement retained so far is strictly less than the start of its first replacement
  (\<open>a.end \<ge> b.start\<close> rejects the whole finding, so touching ranges count as
  overlapping). If moreover the replacements of every finding are listed in position
  order and do not overlap one another, then for two retained findings, the earlier in
  sort order owning \<open>a\<close> and the later owning \<open>b\<close>, \<open>a.end \<ge> b.start\<close> never holds:
  of two findings owning such a pair at most one is included.
\<close>

theorem getNonOverlappingReplacements_retains_separated:
  assumes "list_all (\<lambda>f. getReplacements (fixOf f) \<noteq> []) failures"
  shows "sortFailures failures = Inr (sort_key startKey failures)
    \<and> sorted (map (\<lambda>f. range0 (hd (getReplacements (fixOf f)))) (sort_key startKey failures))
    \<and> mset (sort_key startKey failures) = mset failures
    \<and> getNonOverlappingReplacements failures =
        Inr (concat (map (\<lambda>f. getReplacements (fixOf f)) (retainedFailures failures)))
    \<and> subseq (retainedFailures failures) (sort_key startKey failures)
    \<and> (failures \<noteq> [] \<longrightarrow>
          retainedFailures failures \<noteq> [] \<and>
          hd (retainedFailures failures) = hd (sort_key startKey failures))
    \<and> (\<forall>acc f rest. acc \<noteq> [] \<and> getReplacements (fixOf f) \<noteq> [] \<longrightarrow>
          walk acc (f # rest) =
            (if range1 (last acc) < range0 (hd (getReplacements (fixOf f)))
             then walk (acc @ getReplacements (fixOf f)) rest else walk acc rest))
    \<and> (list_all (\<lambda>f. orderedRanges (getReplacements (fixOf f))) failures \<longrightarrow>
          (\<forall>i j. i < j \<and> j < length (retainedFailures failures) \<longrightarrow>
             (\<forall>a \<in> set (getReplacements (fixOf (retainedFailures failures ! i))).
              \<forall>b \<in> set (getReplacements (fixOf (retainedFailures failures ! j))).
                \<not> range1 a \<ge> range0 b)))"
proof -
  have sep: "\<forall>i j. i < j \<and> j < length (retainedFailures failures) \<longrightarrow>
             (\<forall>a \<in> set (getReplacements (fixOf (retainedFailures failures ! i))).
              \<forall>b \<in> set (getReplacements (fixOf (retainedFailures failures ! j))).
                \<not> range1 a \<ge> range0 b)"
    if "list_all (\<lambda>f. orderedRanges (getReplacements (fixOf f))) failures"
    using resolver_separated [OF assms that]
    by (fastforce simp: sorted_wrt_iff_nth_less separated_def list_all_iff)
  show ?thesis
    using sortFailures_total [OF assms] sortFailures_ascending [OF assms]
      resolver_result [OF assms] resolver_subseq [OF assms] resolver_first [OF assms]
      walk_step sep
    by (intro conjI impI allI) (simp_all del: walk.simps)
qed

theorem getNonOverlappingReplacements_retains_separated_witness:
  "list_all (\<lambda>f. getReplacements (fixOf f) \<noteq> []) [laterFailure, insideFailure, orderedFailure]
   \<and> list_all (\<lambda>f. orderedRanges (getReplacements (fixOf f))) [laterFailure, insideFailure, orderedFailure]
   \<and> sortFailures [laterFailure, insideFailure, orderedFailure] =
       Inr [orderedFailure, insideFailure, laterFailure]
   \<and> retainedFailures [laterFailure, insideFailure, orderedFailure] = [orderedFailure, laterFailure]
   \<and> getNonOverlappingReplacements [laterFailure, insideFailure, orderedFailure] =
       Inr [mkFix 0 1 ''b'', mkFix 50 60 ''a'', mkFix 61 70 ''d'']
   \<and> \<not> range1 (mkFix 50 60 ''a'') \<ge> range0 (mkFix 61 70 ''d'')"
proof -
  let ?fs = "[laterFailure, insideFailure, orderedFailure]"
  have some: "list_all (\<lambda>f. getReplacements (fixOf f) \<noteq> []) ?fs"
    by (simp add: laterFailure_def insideFailure_def orderedFailure_def resolver_eval)
  have ord: "list_all (\<lambda>f. orderedRanges (getReplacements (fixOf f))) ?fs"
    by (simp add: laterFailure_def insideFailure_def orderedFailure_def resolver_eval)
  have srt: "sort_key startKey ?fs = [orderedFailure, insideFailure, laterFailure]"
    by (simp add: laterFailure_def insideFailure_def orderedFailure_def resolver_eval)
  have kept: "retainedFailures ?fs = [orderedFailure, laterFailure]"
    by (simp add: laterFailure_def insideFailure_def orderedFailure_def resolver_eval)
  note main = getNonOverlappingReplacements_retains_separated [OF some]
  have res: "getNonOverlappingReplacements ?fs = Inr [mkFix 0 1 ''b'', mkFix 50 60 ''a'', mkFix 61 70 ''d'']"
    using main unfolding kept
    by (simp add: laterFailure_def orderedFailure_def getReplacements_def mkFailure_def)
  have "\<forall>a \<in> set (getReplacements (fixOf (retainedFailures ?fs ! 0))).
        \<forall>b \<in> set (getReplacements (fixOf (retainedFailures ?fs ! 1))). \<not> range1 a \<ge> range0 b"
    using main ord unfolding kept by (metis One_nat_def length_Cons lessI list.size(3) zero_less_one)
  then have "\<not> range1 (mkFix 50 60 ''a'') \<ge> range0 (mkFix 61 70 ''d'')"
    unfolding kept
    by (simp add: laterFailure_def orderedFailure_def getReplacements_def mkFailure_def)
  with some ord main srt kept res show ?thesis by simp
qed

text \<open>
  Claim C1 as stated fails when a finding lists its replacements out of position order:
  both findings below carry at least one replacement and both are included, although
  the replacement \<open>[50,60]\<close> of the first and \<open>[55,56]\<close> of the second satisfy
  \<open>a.start \<le> b.start\<close> and \<open>a.end \<ge> b.start\<close>.
\<close>

theorem getNonOverlappingReplacements_unordered_counterexample:
  "list_all (\<lambda>f. getReplacements (fixOf f) \<noteq> []) [unorderedFailure, insideFailure]
   \<and> sortFailures [unorderedFailure, insideFailure] = Inr [unorderedFailure, insideFailure]
   \<and> getNonOverlappingReplacements [unorderedFailure, insideFailure] =
       Inr [mkFix 50 60 ''a'', mkFix 0 1 ''b'', mkFix 55 56 ''c'']
   \<and> retainedFailures [unorderedFailure, insideFailure] = [unorderedFailure, insideFailure]
   \<and> mkFix 50 60 ''a'' \<in> set (getReplacements (fixOf (retainedFailures [unorderedFailure, insideFailure] ! 0)))
   \<and> mkFix 55 56 ''c'' \<in> set (getReplacements (fixOf (retainedFailures [unorderedFailure, insideFailure] ! 1)))
   \<and> range0 (mkFix 50 60 ''a'') \<le> range0 (mkFix 55 56 ''c'')
   \<and> range1 (mkFix 50 60 ''a'') \<ge> range0 (mkFix 55 56 ''c'')"
  by (simp add: unorderedFailure_def insideFailure_def resolver_eval)

section \<open>Properties of the position resolver and the registry\<close>

lemma positionResolver_null:
  "positionResolver file ln col = Inr None \<longleftrightarrow> ln = None \<or> ln = Some 0"
  by (auto simp: positionResolver_def Let_def split: option.splits)

lemma arrayAt_last: "xs \<noteq> [] \<Longrightarrow> arrayAt xs (int (length xs) - 1) = Some (last xs)"
  by (cases xs rule: rev_cases) (auto simp: arrayAt_def nat_diff_distrib')

lemma arrayAt_in: "1 \<le> l \<Longrightarrow> l \<le> int (length xs) \<Longrightarrow> arrayAt xs (l - 1) = Some (xs ! nat (l - 1))"
  by (auto simp: arrayAt_def)

lemma positionResolver_beyond:
  "getLineStarts file \<noteq> [] \<Longrightarrow> l > int (length (getLineStarts file)) \<Longrightarrow>
   positionResolver file (Some l) col = Inr (Some (getLineEndOfPosition file (last (getLineStarts file))))"
  by (auto simp: positionResolver_def Let_def arrayAt_last)

lemma positionResolver_no_column:
  "1 \<le> l \<Longrightarrow> l \<le> int (length (getLineStarts file)) \<Longrightarrow>
   positionResolver file (Some l) None =
     Inr (Some (getLineEndOfPosition file (getLineStarts file ! nat (l - 1))))"
  by (simp add: positionResolver_def Let_def arrayAt_in)

lemma positionResolver_overshoot:
  "1 \<le> l \<Longrightarrow> l \<le> int (length (getLineStarts file)) \<Longrightarrow>
   \<not> numLessEq (Num (c - 1))
       (numMinus (getLineEndOfPosition file (getLineStarts file ! nat (l - 1)))
          (Num (getLineStarts file ! nat (l - 1)))) \<Longrightarrow>
   positionResolver file (Some l) (Some c) =
     Inr (Some (getLineEndOfPosition file (getLineStarts file ! nat (l - 1))))"
  by (simp add: positionResolver_def Let_def arrayAt_in)

lemma positionResolver_inside:
  "1 \<le> l \<Longrightarrow> l \<le> int (length (getLineStarts file)) \<Longrightarrow>
   numLessEq (Num (c - 1))
       (numMinus (getLineEndOfPosition file (getLineStarts file ! nat (l - 1)))
          (Num (getLineStarts file ! nat (l - 1)))) \<Longrightarrow>
   positionResolver file (Some l) (Some c) =
     Inr (Some (getPositionOfLineAndCharacter file (l - 1) (c - 1)))"
  by (simp add: positionResolver_def Let_def arrayAt_in)

lemma getTextSpan_resolved:
  "positionResolver file (line m) (column m) = Inr s \<Longrightarrow>
   positionResolver file (endLine m) (endColumn m) = Inr e \<Longrightarrow>
   getTextSpan file m =
     (case (s, e) of
        (Some a, Some b) \<Rightarrow> Inr \<lparr>spanStart = a, spanLength = numMinus b a, spanEnd = b\<rparr>
      | (Some a, None) \<Rightarrow> Inr \<lparr>spanStart = a, spanLength = numMinus a a, spanEnd = a\<rparr>
      | (None, Some b) \<Rightarrow> Inr \<lparr>spanStart = Num 0, spanLength = numMinus b (Num 0), spanEnd = b\<rparr>
      | (None, None) \<Rightarrow> Inr \<lparr>spanStart = Num 0, spanLength = Num 0, spanEnd = Num 0\<rparr>)"
  by (simp add: getTextSpan_def Let_def orElse_def split: option.splits)

text \<open>
  Claim C2. For every source snapshot: the position resolver returns \<^verbatim>\<open>null\<close> exactly
  when the line is absent or zero. With a line table that is not empty, a line beyond
  the line count resolves to the end of the last known line. For a line within the
  table, an absent column resolves to the line's end offset; a column whose 0-based
  value is not at or before the line's length (it overshoots, or the length is not a
  number) resolves to the line's end offset; any other column resolves through the
  line/character lookup. \<open>getTextSpan\<close> resolves \<open>(line, column)\<close> and
  \<open>(endLine, endColumn)\<close> independently: a resolved start offset is the span's start and
  a resolved end offset is the span's end, the length is their difference; the start is
  0 when its resolution gives \<^verbatim>\<open>null\<close>, the end is the start when its resolution gives
  \<^verbatim>\<open>null\<close>.
\<close>

theorem positionResolver_clamps:
  "(positionResolver file ln col = Inr None \<longleftrightarrow> ln = None \<or> ln = Some 0)
   \<and> (getLineStarts file \<noteq> [] \<and> l > int (length (getLineStarts file)) \<longrightarrow>
        positionResolver file (Some l) col =
          Inr (Some (getLineEndOfPosition file (last (getLineStarts file)))))
   \<and> (1 \<le> l \<and> l \<le> int (length (getLineStarts file)) \<longrightarrow>
        positionResolver file (Some l) None =
          Inr (Some (getLineEndOfPosition file (getLineStarts file ! nat (l - 1)))))
   \<and> (1 \<le> l \<and> l \<le> int (length (getLineStarts file)) \<and>
        \<not> numLessEq (Num (c - 1))
            (numMinus (getLineEndOfPosition file (getLineStarts file ! nat (l - 1)))
               (Num (getLineStarts file ! nat (l - 1)))) \<longrightarrow>
        positionResolver file (Some l) (Some c) =
          Inr (Some (getLineEndOfPosition file (getLineStarts file ! nat (l - 1)))))
   \<and> (1 \<le> l \<and> l \<le> int (length (getLineStarts file)) \<and>
        numLessEq (Num (c - 1))
            (numMinus (getLineEndOfPosition file (getLineStarts file ! nat (l - 1)))
               (Num (getLineStarts file ! nat (l - 1)))) \<longrightarrow>
        positionResolver file (Some l) (Some c) =
          Inr (Some (getPositionOfLineAndCharacter file (l - 1) (c - 1))))
   \<and> (numLessEq (Num x) (numMinus (Num lineEnd) (Num lineStart)) \<longleftrightarrow> x \<le> lineEnd - lineStart)
   \<and> (positionResolver file (line m) (column m) = Inr (Some a) \<and>
        positionResolver file (endLine m) (endColumn m) = Inr (Some b) \<longrightarrow>
        getTextSpan file m = Inr \<lparr>spanStart = a, spanLength = numMinus b a, spanEnd = b\<rparr>)
   \<and> (positionResolver file (line m) (column m) = Inr (Some a) \<and>
        positionResolver file (endLine m) (endColumn m) = Inr None \<longrightarrow>
        getTextSpan file m = Inr \<lparr>spanStart = a, spanLength = numMinus a a, spanEnd = a\<rparr>)
   \<and> (positionResolver file (line m) (column m) = Inr None \<and>
        positionResolver file (endLine m) (endColumn m) = Inr (Some b) \<longrightarrow>
        getTextSpan file m = Inr \<lparr>spanStart = Num 0, spanLength = numMinus b (Num 0), spanEnd = b\<rparr>)
   \<and> (positionResolver file (line m) (column m) = Inr None \<and>
        positionResolver file (endLine m) (endColumn m) = Inr None \<longrightarrow>
        getTextSpan file m = Inr \<lparr>spanStart = Num 0, spanLength = Num 0, spanEnd = Num 0\<rparr>)"
  using positionResolver_null [of "file" ln col] positionResolver_beyond [of "file" l col]
    positionResolver_no_column [of l "file"] positionResolver_overshoot [of l "file" c]
    positionResolver_inside [of l "file" c]
    getTextSpan_resolved [of "file" m "Some a" "Some b"] getTextSpan_resolved [of "file" m "Some a" None]
    getTextSpan_resolved [of "file" m None "Some b"] getTextSpan_resolved [of "file" m None None]
  by simp

theorem positionResolver_clamps_witness:
  "positionResolver sampleFile None (Some 3) = Inr None
   \<and> positionResolver sampleFile (Some 0) (Some 3) = Inr None
   \<and> positionResolver sampleFile (Some 5) (Some 1) = Inr (Some (Num 14))
   \<and> positionResolver sampleFile (Some 1) None = Inr (Some (Num 9))
   \<and> positionResolver sampleFile (Some 1) (Some 50) = Inr (Some (Num 9))
   \<and> positionResolver sampleFile (Some 1) (Some 3) = Inr (Some (Num 2))
   \<and> positionResolver sampleFile (Some 2) (Some 2) = Inr (Some (Num 11))
   \<and> getTextSpan sampleFile (mkSpanFailure (Some 1) (Some 3) (Some 2) (Some 2)) =
       Inr \<lparr>spanStart = Num 2, spanLength = Num 9, spanEnd = Num 11\<rparr>
   \<and> getTextSpan sampleFile (mkSpanFailure (Some 1) (Some 3) None None) =
       Inr \<lparr>spanStart = Num 2, spanLength = Num 0, spanEnd = Num 2\<rparr>
   \<and> getTextSpan sampleFile (mkSpanFailure None None (Some 2) (Some 2)) =
       Inr \<lparr>spanStart = Num 0, spanLength = Num 11, spanEnd = Num 11\<rparr>
   \<and> getTextSpan sampleFile (mkSpanFailure None None None None) =
       Inr \<lparr>spanStart = Num 0, spanLength = Num 0, spanEnd = Num 0\<rparr>"
proof -
  let ?m = "mkSpanFailure (Some 1) (Some 3) (Some 2) (Some 2)"
  have a: "positionResolver sampleFile None (Some 3) = Inr None"
    using positionResolver_clamps [of sampleFile None "Some 3"] by simp
  have b: "positionResolver sampleFile (Some 0) (Some 3) = Inr None"
    using positionResolver_clamps [of sampleFile "Some 0" "Some 3"] by simp
  have n: "positionResolver sampleFile None None = Inr None"
    using positionResolver_clamps [of sampleFile None None] by simp
  have c: "positionResolver sampleFile (Some 5) (Some 1) = Inr (Some (Num 14))"
    using positionResolver_clamps [of sampleFile None "Some 1" 5]
    by (simp add: sampleFile_def)
  have d: "positionResolver sampleFile (Some 1) None = Inr (Some (Num 9))"
    using positionResolver_clamps [of sampleFile None None 1]
    by (simp add: sampleFile_def)
  have e: "positionResolver sampleFile (Some 1) (Some 50) = Inr (Some (Num 9))"
    using positionResolver_clamps [of sampleFile None None 1 50]
    by (simp add: sampleFile_def)
  have f: "positionResolver sampleFile (Some 1) (Some 3) = Inr (Some (Num 2))"
    using positionResolver_clamps [of sampleFile None None 1 3]
    by (simp add: sampleFile_def)
  have g: "positionResolver sampleFile (Some 2) (Some 2) = Inr (Some (Num 11))"
    using positionResolver_clamps [of sampleFile None None 2 2]
    by (simp add: sampleFile_def)
  have h: "getTextSpan sampleFile ?m = Inr \<lparr>spanStart = Num 2, spanLength = Num 9, spanEnd = Num 11\<rparr>"
    using positionResolver_clamps [of sampleFile None None 1 1 0 0 0 ?m "Num 2" "Num 11"] f g
    by (simp add: mkSpanFailure_def)
  have i: "getTextSpan sampleFile (mkSpanFailure (Some 1) (Some 3) None None) =
       Inr \<lparr>spanStart = Num 2, spanLength = Num 0, spanEnd = Num 2\<rparr>"
    using positionResolver_clamps [of sampleFile None None 1 1 0 0 0
        "mkSpanFailure (Some 1) (Some 3) None None" "Num 2" "Num 11"] f n
    by (simp add: mkSpanFailure_def)
  have j: "getTextSpan sampleFile (mkSpanFailure None None (Some 2) (Some 2)) =
       Inr \<lparr>spanStart = Num 0, spanLength = Num 11, spanEnd = Num 11\<rparr>"
    using positionResolver_clamps [of sampleFile None None 1 1 0 0 0
        "mkSpanFailure None None (Some 2) (Some 2)" "Num 2" "Num 11"] g n
    by (simp add: mkSpanFailure_def)
  have k: "getTextSpan sampleFile (mkSpanFailure None None None None) =
       Inr \<lparr>spanStart = Num 0, spanLength = Num 0, spanEnd = Num 0\<rparr>"
    using positionResolver_clamps [of sampleFile None None 1 1 0 0 0
        "mkSpanFailure None None None None" "Num 2" "Num 11"] n
    by (simp add: mkSpanFailure_def)
  from a b c d e f g h i j k show ?thesis by (intro conjI)
qed

lemmas span_eval = positionResolver_def getTextSpan_def arrayAt_def orElse_def Let_def
  sampleFile_def emptyFile_def backwardsFailure_def mkSpanFailure_def

lemma mapSet_get: "map_of (mapSet k v m) k = Some v"
  by (induction m) auto

lemma isFixable_cases:
  "isFixable f = (case fixOf f of NoFix \<Rightarrow> False | OneFix r \<Rightarrow> True | FixArray fs \<Rightarrow> fs \<noteq> [])"
  by (simp add: isFixable_def replacementsAreEmpty_def split: fix_value.splits)

text \<open>
  Claim C5. For every finding that \<open>recordCodeAction\<close> registers (its span resolves),
  the problem stored in the registry of the file under the finding's span has
  \<open>fixable = true\<close> exactly when the finding's fix exists and, when it is an array, that
  array is not empty; a finding with no fix is stored with \<open>fixable = false\<close> and a
  finding whose fix holds at least one replacement with \<open>fixable = true\<close>.
\<close>

theorem recordCodeAction_fixable:
  assumes "getTextSpan file f = Inr sp"
  shows "\<exists>st' m. recordCodeAction st f file = Inr st'
     \<and> codeFixActions st' (fileName file) = Some m
     \<and> ProblemMap_get m (spanStart sp) (spanEnd sp) =
         Some \<lparr>failure = f,
               fixable = (case fixOf f of NoFix \<Rightarrow> False | OneFix r \<Rightarrow> True | FixArray fs \<Rightarrow> fs \<noteq> [])\<rparr>
     \<and> (fixOf f = NoFix \<longrightarrow> ProblemMap_get m (spanStart sp) (spanEnd sp) = Some \<lparr>failure = f, fixable = False\<rparr>)
     \<and> (getReplacements (fixOf f) \<noteq> [] \<longrightarrow>
          ProblemMap_get m (spanStart sp) (spanEnd sp) = Some \<lparr>failure = f, fixable = True\<rparr>)"
  using assms
  by (auto simp: recordCodeAction_def Let_def ProblemMap_get_def ProblemMap_set_def mapSet_get
      isFixable_cases getReplacements_def split: fix_value.splits)

theorem recordCodeAction_fixable_witness:
  "(\<exists>st' m. recordCodeAction emptyState insideFailure sampleFile = Inr st'
      \<and> codeFixActions st' ''a.ts'' = Some m
      \<and> ProblemMap_get m (Num 0) (Num 0) = Some \<lparr>failure = insideFailure, fixable = True\<rparr>)
   \<and> (\<exists>st' m. recordCodeAction emptyState backwardsFailure sampleFile = Inr st'
      \<and> codeFixActions st' ''a.ts'' = Some m
      \<and> ProblemMap_get m (Num 10) (Num 0) = Some \<lparr>failure = backwardsFailure, fixable = False\<rparr>)"
proof -
  have a: "getTextSpan sampleFile insideFailure = Inr \<lparr>spanStart = Num 0, spanLength = Num 0, spanEnd = Num 0\<rparr>"
    by (simp add: span_eval insideFailure_def mkFailure_def)
  have b: "getTextSpan sampleFile backwardsFailure = Inr \<lparr>spanStart = Num 10, spanLength = Num (- 10), spanEnd = Num 0\<rparr>"
    by (simp add: span_eval)
  have fa: "fixOf insideFailure = OneFix (mkFix 55 56 ''c'')"
    by (simp add: insideFailure_def mkFailure_def)
  have fb: "fixOf backwardsFailure = NoFix" by (simp add: backwardsFailure_def)
  have n: "fileName sampleFile = ''a.ts''" by (simp add: sampleFile_def)
  show ?thesis
    using recordCodeAction_fixable [OF a, of emptyState] recordCodeAction_fixable [OF b, of emptyState]
    by (simp add: fa fb n) blast
qed

text \<open>
  Claim C10, as amended. Whenever \<open>getTextSpan\<close> yields a span, its length is computed
  as \<open>end - start\<close>, so \<open>end - start == length\<close> holds whenever start and end are
  numbers; the diagnostic published for the finding carries that start and that length
  unchanged, and the problem is stored in the registry under the key of that start and
  end; nothing orders start and end. For the two-line snapshot and a finding that starts
  at line 2 and reports its end on line 1, the span has \<open>end < start\<close> and a negative
  length.
\<close>

theorem getTextSpan_may_run_backwards:
  "(getTextSpan file f = Inr sp \<longrightarrow>
      spanLength sp = numMinus (spanEnd sp) (spanStart sp)
      \<and> (spanStart sp \<noteq> NaN \<and> spanEnd sp \<noteq> NaN \<longrightarrow>
            numEq (numMinus (spanEnd sp) (spanStart sp)) (spanLength sp))
      \<and> (\<exists>d. makeDiagnostic env cfg f file = Inr d \<and> dStart d = spanStart sp \<and> dLength d = spanLength sp)
      \<and> (\<exists>st'. recordCodeAction st f file = Inr st' \<and>
            codeFixActions st' (fileName file) =
              Some (mapSet (key (spanStart sp) (spanEnd sp)) \<lparr>failure = f, fixable = isFixable f\<rparr>
                     (case codeFixActions st (fileName file) of None \<Rightarrow> [] | Some m \<Rightarrow> m))))
   \<and> (\<exists>sp'. getTextSpan sampleFile backwardsFailure = Inr sp'
         \<and> numLess (spanEnd sp') (spanStart sp') \<and> numLess (spanLength sp') (Num 0))"
proof -
  have "getTextSpan sampleFile backwardsFailure =
      Inr \<lparr>spanStart = Num 10, spanLength = Num (- 10), spanEnd = Num 0\<rparr>"
    by (simp add: span_eval)
  then have ex: "\<exists>sp'. getTextSpan sampleFile backwardsFailure = Inr sp'
         \<and> numLess (spanEnd sp') (spanStart sp') \<and> numLess (spanLength sp') (Num 0)" by simp
  have len: "spanLength sp = numMinus (spanEnd sp) (spanStart sp)" if "getTextSpan file f = Inr sp"
    using that by (auto simp: getTextSpan_def Let_def split: sum.splits)
  have eq: "numEq (numMinus b a) (numMinus b a)" if "a \<noteq> NaN" "b \<noteq> NaN" for a b
    using that by (cases a; cases b) simp_all
  show ?thesis using ex len eq [of "spanStart sp" "spanEnd sp"]
    by (auto simp: makeDiagnostic_def recordCodeAction_def Let_def ProblemMap_set_def)
qed

theorem getTextSpan_may_run_backwards_witness:
  "getTextSpan sampleFile backwardsFailure =
     Inr \<lparr>spanStart = Num 10, spanLength = Num (- 10), spanEnd = Num 0\<rparr>
   \<and> numEq (numMinus (Num 0) (Num 10)) (Num (- 10))
   \<and> (\<exists>d. makeDiagnostic (sampleEnv lintingRunner) (sampleConfig False) backwardsFailure sampleFile = Inr d
          \<and> dStart d = Num 10 \<and> dLength d = Num (- 10))
   \<and> (\<exists>st'. recordCodeAction emptyState backwardsFailure sampleFile = Inr st' \<and>
          codeFixActions st' ''a.ts'' =
            Some [(''[10,0]'', \<lparr>failure = backwardsFailure, fixable = False\<rparr>)])"
proof -
  have b: "getTextSpan sampleFile backwardsFailure =
      Inr \<lparr>spanStart = Num 10, spanLength = Num (- 10), spanEnd = Num 0\<rparr>"
    by (simp add: span_eval)
  have k: "key (Num 10) (Num 0) = ''[10,0]''"
    by (simp add: key_def showNumber_def showInt_def showNat.simps)
  have fx: "isFixable backwardsFailure = False"
    by (simp add: isFixable_def backwardsFailure_def)
  have n: "fileName sampleFile = ''a.ts''" by (simp add: sampleFile_def)
  show ?thesis
    using getTextSpan_may_run_backwards
      [of sampleFile backwardsFailure "\<lparr>spanStart = Num 10, spanLength = Num (- 10), spanEnd = Num 0\<rparr>"
        "sampleEnv lintingRunner" "sampleConfig False" emptyState]
    by (simp add: b k fx n emptyState_def)
qed

text \<open>
  Claim C10 as stated fails in its guarantee: on the empty snapshot the line end is
  \<^verbatim>\<open>NaN\<close>, so start, end and length of the span of a finding at line 1 are \<^verbatim>\<open>NaN\<close>, and
  \<open>end - start == length\<close> is false.
\<close>

theorem getTextSpan_nan_counterexample:
  "getTextSpan emptyFile (mkSpanFailure (Some 1) (Some 1) None None) =
     Inr \<lparr>spanStart = NaN, spanLength = NaN, spanEnd = NaN\<rparr>
   \<and> \<not> numEq (numMinus (spanEnd \<lparr>spanStart = NaN, spanLength = NaN, spanEnd = NaN\<rparr>)
                      (spanStart \<lparr>spanStart = NaN, spanLength = NaN, spanEnd = NaN\<rparr>))
              (spanLength \<lparr>spanStart = NaN, spanLength = NaN, spanEnd = NaN\<rparr>)"
  by (simp add: span_eval)

section \<open>Properties of the diagnostics and code-fix requests\<close>

lemma getSemanticDiagnostics_suppressed:
  "suppressWhileTypeErrorsPresent cfg \<Longrightarrow> delegate name \<noteq> [] \<Longrightarrow>
   getSemanticDiagnostics env cfg delegate name st = Inr (delegate name, st)"
  by (simp add: getSemanticDiagnostics_def)

lemma getCodeFixesAtPosition_suppressed:
  "suppressWhileTypeErrorsPresent cfg \<Longrightarrow> delegate name start end' codes \<noteq> [] \<Longrightarrow>
   getCodeFixesAtPosition env cfg delegate name start end' codes st =
     Inr (delegate name start end' codes, st)"
  by (simp add: getCodeFixesAtPosition_def)

text \<open>
  Claim C6. When suppression while type errors are present is configured: a diagnostics
  request on which the host's own diagnostics are not empty returns them unchanged and
  leaves the plugin state as it was (the registry is not cleared, nothing is logged),
  whatever the runner of the environment would do, which is not called; a code-fix
  request on which the host's own fixes are not empty returns exactly those fixes.
\<close>

theorem suppression_returns_host_results:
  "suppressWhileTypeErrorsPresent cfg \<longrightarrow>
     (hostDiagnostics name \<noteq> [] \<longrightarrow>
        (\<forall>env. getSemanticDiagnostics env cfg hostDiagnostics name st = Inr (hostDiagnostics name, st)))
     \<and> (hostFixes name start end' codes \<noteq> [] \<longrightarrow>
        (\<forall>env. getCodeFixesAtPosition env cfg hostFixes name start end' codes st =
           Inr (hostFixes name start end' codes, st)))"
  by (simp add: getSemanticDiagnostics_suppressed getCodeFixesAtPosition_suppressed)

theorem suppression_returns_host_results_witness:
  "getSemanticDiagnostics (sampleEnv lintingRunner) (sampleConfig True) (\<lambda>name. [hostDiagnostic]) ''a.ts'' emptyState
     = Inr ([hostDiagnostic], emptyState)
   \<and> getCodeFixesAtPosition (sampleEnv lintingRunner) (sampleConfig True) (\<lambda>name s e codes. [hostFix])
        ''a.ts'' 0 0 [100000] emptyState = Inr ([hostFix], emptyState)"
  using suppression_returns_host_results
    [of "sampleConfig True" "\<lambda>name. [hostDiagnostic]" "''a.ts''" emptyState "\<lambda>name s e codes. [hostFix]" 0 0 "[100000]"]
  by (simp add: sampleConfig_def)

lemma runner_throw_contained:
  assumes "runEsLint env name (runConfiguration cfg) = Inl err"
  shows "\<exists>st'. getSemanticDiagnostics env cfg hostDiagnostics name st = Inr (hostDiagnostics name, st')
     \<and> (runnerInvoked cfg (hostDiagnostics name) name \<longrightarrow>
          codeFixActions st' = (codeFixActions st)(name := None) \<and> watching st' = watching st \<and>
          logged st' = logged st @
            Info (''Computing eslint semantic diagnostics for '' @ [CHR 0x27] @ name @ [CHR 0x27]) #
            (case err of
               ThrownObject (Some m) \<Rightarrow> [Info (''eslint error '' @ m)]
             | ThrownObject None \<Rightarrow> [Info ''eslint error unknown error'']
             | ThrownNullish \<Rightarrow> [ServiceError TypeError, StackTrace TypeError]))"
  using assms
  by (cases err)
    (auto simp: getSemanticDiagnostics_def lintAndReport_def runnerFailed_def info_def
       runnerInvoked_def Let_def split: option.splits)

lemma loadCachedLibrary_crash:
  "(eslintPath2Library rs esLintPath = None \<and> requireModule ld esLintPath = Inl crash \<longrightarrow>
      loadCachedLibrary ld esLintPath rs =
        (None, rs\<lparr>eslintPath2Library := (eslintPath2Library rs)(esLintPath \<mapsto> None)\<rparr>))
   \<and> (eslintPath2Library rs esLintPath = Some None \<longrightarrow>
      loadCachedLibrary ld esLintPath rs = (None, rs))"
  by (simp add: loadCachedLibrary_def)

lemma runEsLint_unloadable:
  assumes "(if \<not> mru_has (document2LibraryCache rs) name
            then loadLibrary ld name configuration [] rs (traceMethod ''runEsLint'' ''start'' p)
            else (Inr [], rs, traceMethod ''runEsLint'' ''start'' p)) = (Inr warns, rs1, p2)"
    and "mru_get (document2LibraryCache rs1) name = (Some esLintPath, c)"
    and "fst (loadCachedLibrary ld esLintPath (rs1\<lparr>document2LibraryCache := c\<rparr>)) = None"
  shows "fst (EsLintRunner_runEsLint os ld name cont configuration rs p) =
     Inr \<lparr>lintResult = emptyLintResult,
          warnings = [getInstallFailureMessage name
                        (case packageManager configuration of None \<Rightarrow> Npm | Some m \<Rightarrow> m)],
          resultWorkspaceFolderPath = None, configFilePath = None\<rparr>"
proof -
  have has: "mru_has (document2LibraryCache rs1) name"
    using assms(2) by (auto simp: mru_has_def mru_get_def split: option.splits)
  obtain rs2 where l: "loadCachedLibrary ld esLintPath (rs1\<lparr>document2LibraryCache := c\<rparr>) = (None, rs2)"
    using assms(3) by (cases "loadCachedLibrary ld esLintPath (rs1\<lparr>document2LibraryCache := c\<rparr>)") auto
  show ?thesis
    unfolding EsLintRunner_runEsLint_def Let_def assms(1)
    by (simp add: has assms(2) l)
qed

lemma unshift_all:
  "fold (\<lambda>w ds. g w # ds) ws ds = rev (map g ws) @ ds"
  by (induction ws arbitrary: ds) auto

lemma install_warning_reported:
  assumes "runnerInvoked cfg (hostDiagnostics name) name"
    and "runEsLint env name (runConfiguration cfg) =
           Inr \<lparr>lintResult = emptyLintResult, warnings = ws, resultWorkspaceFolderPath = None,
                configFilePath = None\<rparr>"
  shows "\<exists>st'. getSemanticDiagnostics env cfg hostDiagnostics name st =
     Inr (if fileExists env (pathJoin env (getCurrentDirectory env) ''eslint.json'')
          then rev (map (warningDiagnostic env (getSourceFile env name)) ws) @ hostDiagnostics name
          else hostDiagnostics name, st')"
  using assms
  by (auto simp: getSemanticDiagnostics_def lintAndReport_def runnerInvoked_def Let_def
      reportWarnings_def whenTruthy_def filterProblemsForFile_def emptyLintResult_def unshift_all)

text \<open>
  Claim C3, as amended. For every diagnostics request on which the call of the runner
  throws, whatever the thrown value, \<open>getSemanticDiagnostics\<close> returns normally with
  exactly the host's own diagnostics; when the call is reached, the registry of the file
  has been dropped and the failure has been logged: the message of the thrown value (or
  \<^verbatim>\<open>unknown error\<close>), or, for a thrown \<^verbatim>\<open>null\<close> or \<^verbatim>\<open>undefined\<close>, the TypeError that
  reading its message raises and that the outer handler catches. A crash while loading
  the library is not such a throw: the runner catches the failing \<^verbatim>\<open>require\<close>, records
  the failure for the resolved path, and returns the empty lint result with one install
  warning; \<open>getSemanticDiagnostics\<close> then returns normally too, with that warning as a
  diagnostic in front of the host's diagnostics when \<^verbatim>\<open>eslint.json\<close> exists in the
  program's directory, and with the host's diagnostics alone otherwise.
\<close>

theorem runner_throws_are_contained_load_crash_is_reported:
  "(runEsLint env name (runConfiguration cfg) = Inl err \<longrightarrow>
      (\<exists>st'. getSemanticDiagnostics env cfg hostDiagnostics name st = Inr (hostDiagnostics name, st')
         \<and> (runnerInvoked cfg (hostDiagnostics name) name \<longrightarrow>
              codeFixActions st' = (codeFixActions st)(name := None) \<and> watching st' = watching st \<and>
              logged st' = logged st @
                Info (''Computing eslint semantic diagnostics for '' @ [CHR 0x27] @ name @ [CHR 0x27]) #
                (case err of
                   ThrownObject (Some m) \<Rightarrow> [Info (''eslint error '' @ m)]
                 | ThrownObject None \<Rightarrow> [Info ''eslint error unknown error'']
                 | ThrownNullish \<Rightarrow> [ServiceError TypeError, StackTrace TypeError]))))
   \<and> (eslintPath2Library rs esLintPath = None \<and> requireModule ld esLintPath = Inl crash \<longrightarrow>
        loadCachedLibrary ld esLintPath rs =
          (None, rs\<lparr>eslintPath2Library := (eslintPath2Library rs)(esLintPath \<mapsto> None)\<rparr>))
   \<and> (eslintPath2Library rs esLintPath = Some None \<longrightarrow>
        loadCachedLibrary ld esLintPath rs = (None, rs))
   \<and> ((if \<not> mru_has (document2LibraryCache rs) name
         then loadLibrary ld name configuration [] rs (traceMethod ''runEsLint'' ''start'' p)
         else (Inr [], rs, traceMethod ''runEsLint'' ''start'' p)) = (Inr warns, rs1, p2) \<and>
        mru_get (document2LibraryCache rs1) name = (Some esLintPath, c) \<and>
        fst (loadCachedLibrary ld esLintPath (rs1\<lparr>document2LibraryCache := c\<rparr>)) = None \<longrightarrow>
        fst (EsLintRunner_runEsLint os ld name cont configuration rs p) =
          Inr \<lparr>lintResult = emptyLintResult,
               warnings = [getInstallFailureMessage name
                             (case packageManager configuration of None \<Rightarrow> Npm | Some m \<Rightarrow> m)],
               resultWorkspaceFolderPath = None, configFilePath = None\<rparr>)
   \<and> (runnerInvoked cfg (hostDiagnostics name) name \<and>
        runEsLint env name (runConfiguration cfg) =
          Inr \<lparr>lintResult = emptyLintResult, warnings = ws, resultWorkspaceFolderPath = None,
               configFilePath = None\<rparr> \<longrightarrow>
        (\<exists>st'. getSemanticDiagnostics env cfg hostDiagnostics name st =
           Inr (if fileExists env (pathJoin env (getCurrentDirectory env) ''eslint.json'')
                then rev (map (warningDiagnostic env (getSourceFile env name)) ws) @ hostDiagnostics name
                else hostDiagnostics name, st')))"
proof (intro conjI impI)
  show "loadCachedLibrary ld esLintPath rs =
          (None, rs\<lparr>eslintPath2Library := (eslintPath2Library rs)(esLintPath \<mapsto> None)\<rparr>)"
    if "eslintPath2Library rs esLintPath = None \<and> requireModule ld esLintPath = Inl crash"
    using that loadCachedLibrary_crash [of rs esLintPath ld crash] by simp
  show "loadCachedLibrary ld esLintPath rs = (None, rs)"
    if "eslintPath2Library rs esLintPath = Some None"
    using that loadCachedLibrary_crash [of rs esLintPath ld crash] by simp
qed (use runner_throw_contained [of env name cfg err hostDiagnostics st]
      runEsLint_unloadable [of rs name ld configuration p warns rs1 p2 esLintPath c os cont]
      install_warning_reported [of cfg hostDiagnostics name env ws st] in \<open>simp_all\<close>)

lemmas loader_eval = EsLintRunner_runEsLint_def loadLibrary_def resolveEsLint_def resolveGlobally_def
  getGlobalPackageManagerPath_def loadCachedLibrary_def mru_has_def mru_get_def mru_set_def
  traceMethod_def whenTruthy_def trim_def isSpace_def sampleLoader_def crashingRequire_def
  freshRunner_def sampleProcess_def runConfiguration_def sampleConfig_def toPackageManager_def Let_def

theorem runner_throws_are_contained_load_crash_is_reported_witness:
  "(\<exists>st'. getSemanticDiagnostics (sampleEnv (throwingRunner (ThrownObject (Some ''boom''))))
        (sampleConfig False) oneHostDiagnostic ''a.ts'' emptyState = Inr ([hostDiagnostic], st')
      \<and> logged st' = [Info (''Computing eslint semantic diagnostics for '' @ [CHR 0x27] @ ''a.ts'' @ [CHR 0x27]),
                      Info ''eslint error boom''])
   \<and> (\<exists>st'. getSemanticDiagnostics (sampleEnv (throwingRunner ThrownNullish))
        (sampleConfig False) oneHostDiagnostic ''a.ts'' emptyState = Inr ([hostDiagnostic], st')
      \<and> logged st' = [Info (''Computing eslint semantic diagnostics for '' @ [CHR 0x27] @ ''a.ts'' @ [CHR 0x27]),
                      ServiceError TypeError, StackTrace TypeError])
   \<and> fst (EsLintRunner_runEsLint sampleOs (sampleLoader crashingRequire) ''/proj/a.ts'' (Program ''/proj'')
          (runConfiguration (sampleConfig False)) freshRunner sampleProcess) =
       Inr \<lparr>lintResult = emptyLintResult, warnings = [getInstallFailureMessage ''/proj/a.ts'' Npm],
            resultWorkspaceFolderPath = None, configFilePath = None\<rparr>
   \<and> (\<exists>st'. getSemanticDiagnostics (configuredEnv crashedRunner) (sampleConfig False)
          oneHostDiagnostic ''/proj/a.ts'' emptyState =
        Inr ([warningDiagnostic (configuredEnv crashedRunner) sampleFile
                (getInstallFailureMessage ''/proj/a.ts'' Npm), hostDiagnostic], st'))
   \<and> (\<exists>st'. getSemanticDiagnostics (sampleEnv crashedRunner) (sampleConfig False)
          oneHostDiagnostic ''/proj/a.ts'' emptyState = Inr ([hostDiagnostic], st'))"
proof -
  let ?ld = "sampleLoader crashingRequire"
  let ?rc = "runConfiguration (sampleConfig False)"
  let ?lib = "''/proj/node_modules/eslint/lib/api.js''"
  note main = runner_throws_are_contained_load_crash_is_reported
  note thrown = main [THEN conjunct1]
  note crashed = main [THEN conjunct2, THEN conjunct1]
  note unloadable = main [THEN conjunct2, THEN conjunct2, THEN conjunct2, THEN conjunct1]
  note reported = main [THEN conjunct2, THEN conjunct2, THEN conjunct2, THEN conjunct2]
  have thr: "runEsLint (sampleEnv (throwingRunner e)) ''a.ts'' (runConfiguration c) = Inl e" for e c
    by (simp add: sampleEnv_def throwingRunner_def)
  have inv: "runnerInvoked (sampleConfig False) (oneHostDiagnostic n) ''a.ts''"
    "runnerInvoked (sampleConfig False) (oneHostDiagnostic n) ''/proj/a.ts''" for n
    by (simp_all add: runnerInvoked_def sampleConfig_def suffix_def)
  have a: "\<exists>st'. getSemanticDiagnostics (sampleEnv (throwingRunner (ThrownObject (Some ''boom''))))
        (sampleConfig False) oneHostDiagnostic ''a.ts'' emptyState = Inr ([hostDiagnostic], st')
      \<and> logged st' = [Info (''Computing eslint semantic diagnostics for '' @ [CHR 0x27] @ ''a.ts'' @ [CHR 0x27]),
                      Info ''eslint error boom'']"
    using thrown [of "sampleEnv (throwingRunner (ThrownObject (Some ''boom'')))" "''a.ts''" "sampleConfig False"
        "ThrownObject (Some ''boom'')" oneHostDiagnostic emptyState] thr inv
    by (simp add: emptyState_def oneHostDiagnostic_def) blast
  have b: "\<exists>st'. getSemanticDiagnostics (sampleEnv (throwingRunner ThrownNullish))
        (sampleConfig False) oneHostDiagnostic ''a.ts'' emptyState = Inr ([hostDiagnostic], st')
      \<and> logged st' = [Info (''Computing eslint semantic diagnostics for '' @ [CHR 0x27] @ ''a.ts'' @ [CHR 0x27]),
                      ServiceError TypeError, StackTrace TypeError]"
    using thrown [of "sampleEnv (throwingRunner ThrownNullish)" "''a.ts''" "sampleConfig False"
        ThrownNullish oneHostDiagnostic emptyState] thr inv
    by (simp add: emptyState_def oneHostDiagnostic_def) blast
  have load: "\<exists>rs1 p2 c.
      (if \<not> mru_has (document2LibraryCache freshRunner) ''/proj/a.ts''
       then loadLibrary ?ld ''/proj/a.ts'' ?rc [] freshRunner (traceMethod ''runEsLint'' ''start'' sampleProcess)
       else (Inr [], freshRunner, traceMethod ''runEsLint'' ''start'' sampleProcess)) = (Inr [], rs1, p2)
      \<and> mru_get (document2LibraryCache rs1) ''/proj/a.ts'' = (Some ?lib, c)
      \<and> eslintPath2Library (rs1\<lparr>document2LibraryCache := c\<rparr>) ?lib = None"
    by (simp add: loader_eval)
  then obtain rs1 p2 c where l:
      "(if \<not> mru_has (document2LibraryCache freshRunner) ''/proj/a.ts''
       then loadLibrary ?ld ''/proj/a.ts'' ?rc [] freshRunner (traceMethod ''runEsLint'' ''start'' sampleProcess)
       else (Inr [], freshRunner, traceMethod ''runEsLint'' ''start'' sampleProcess)) = (Inr [], rs1, p2)"
      "mru_get (document2LibraryCache rs1) ''/proj/a.ts'' = (Some ?lib, c)"
      "eslintPath2Library (rs1\<lparr>document2LibraryCache := c\<rparr>) ?lib = None"
    by blast
  have req: "requireModule ?ld ?lib = Inl (ThrownObject (Some ''Cannot find module''))"
    by (simp add: sampleLoader_def crashingRequire_def)
  have caught: "fst (loadCachedLibrary ?ld ?lib (rs1\<lparr>document2LibraryCache := c\<rparr>)) = None"
    using crashed [of "rs1\<lparr>document2LibraryCache := c\<rparr>" ?lib ?ld
        "ThrownObject (Some ''Cannot find module'')"] l(3) req
    by simp
  have pm: "packageManager ?rc = None"
    by (simp add: runConfiguration_def sampleConfig_def toPackageManager_def)
  have run: "fst (EsLintRunner_runEsLint sampleOs ?ld ''/proj/a.ts'' (Program ''/proj'') ?rc freshRunner sampleProcess) =
       Inr \<lparr>lintResult = emptyLintResult, warnings = [getInstallFailureMessage ''/proj/a.ts'' Npm],
            resultWorkspaceFolderPath = None, configFilePath = None\<rparr>"
    using unloadable [of freshRunner "''/proj/a.ts''" ?ld ?rc sampleProcess "[]" rs1 p2 ?lib c
        sampleOs "Program ''/proj''"] l(1,2) caught pm
    by simp
  have called: "runEsLint (configuredEnv crashedRunner) ''/proj/a.ts'' ?rc =
       Inr \<lparr>lintResult = emptyLintResult, warnings = [getInstallFailureMessage ''/proj/a.ts'' Npm],
            resultWorkspaceFolderPath = None, configFilePath = None\<rparr>"
    "runEsLint (sampleEnv crashedRunner) ''/proj/a.ts'' ?rc =
       Inr \<lparr>lintResult = emptyLintResult, warnings = [getInstallFailureMessage ''/proj/a.ts'' Npm],
            resultWorkspaceFolderPath = None, configFilePath = None\<rparr>"
    by (simp_all add: configuredEnv_def sampleEnv_def crashedRunner_def runnerOf_def run)
  have env: "fileExists (configuredEnv crashedRunner)
        (pathJoin (configuredEnv crashedRunner) (getCurrentDirectory (configuredEnv crashedRunner)) ''eslint.json'')"
    "\<not> fileExists (sampleEnv crashedRunner)
        (pathJoin (sampleEnv crashedRunner) (getCurrentDirectory (sampleEnv crashedRunner)) ''eslint.json'')"
    "getSourceFile (configuredEnv crashedRunner) ''/proj/a.ts'' = sampleFile"
    by (simp_all add: configuredEnv_def sampleEnv_def)
  have d: "\<exists>st'. getSemanticDiagnostics (configuredEnv crashedRunner) (sampleConfig False)
          oneHostDiagnostic ''/proj/a.ts'' emptyState =
        Inr ([warningDiagnostic (configuredEnv crashedRunner) sampleFile
                (getInstallFailureMessage ''/proj/a.ts'' Npm), hostDiagnostic], st')"
    using reported [of "sampleConfig False" oneHostDiagnostic "''/proj/a.ts''" "configuredEnv crashedRunner"
        "[getInstallFailureMessage ''/proj/a.ts'' Npm]" emptyState] inv called(1) env
    by (simp add: oneHostDiagnostic_def)
  have e: "\<exists>st'. getSemanticDiagnostics (sampleEnv crashedRunner) (sampleConfig False)
          oneHostDiagnostic ''/proj/a.ts'' emptyState = Inr ([hostDiagnostic], st')"
    using reported [of "sampleConfig False" oneHostDiagnostic "''/proj/a.ts''" "sampleEnv crashedRunner"
        "[getInstallFailureMessage ''/proj/a.ts'' Npm]" emptyState] inv called(2) env
    by (simp add: oneHostDiagnostic_def)
  from a b run d e show ?thesis by (intro conjI)
qed

text \<open>
  Claim C3 as stated fails for the crash it names: the library is resolved, its
  \<^verbatim>\<open>require\<close> throws, \<^verbatim>\<open>/proj/eslint.json\<close> exists, and the diagnostics returned for the
  file are the install warning followed by the host's diagnostic, not the host's
  diagnostics alone.
\<close>

theorem load_crash_changes_diagnostics_counterexample:
  "requireModule (sampleLoader crashingRequire) ''/proj/node_modules/eslint/lib/api.js'' =
     Inl (ThrownObject (Some ''Cannot find module''))
   \<and> map_sum id fst
       (getSemanticDiagnostics (configuredEnv crashedRunner) (sampleConfig False) oneHostDiagnostic
          ''/proj/a.ts'' emptyState) =
     Inr [warningDiagnostic (configuredEnv crashedRunner) sampleFile
            (getInstallFailureMessage ''/proj/a.ts'' Npm), hostDiagnostic]
   \<and> oneHostDiagnostic ''/proj/a.ts'' = [hostDiagnostic]
   \<and> [warningDiagnostic (configuredEnv crashedRunner) sampleFile
         (getInstallFailureMessage ''/proj/a.ts'' Npm), hostDiagnostic] \<noteq> oneHostDiagnostic ''/proj/a.ts''"
proof -
  have run: "fst (EsLintRunner_runEsLint sampleOs (sampleLoader crashingRequire) ''/proj/a.ts'' (Program ''/proj'')
          (runConfiguration (sampleConfig False)) freshRunner sampleProcess) =
     Inr \<lparr>lintResult = emptyLintResult, warnings = [getInstallFailureMessage ''/proj/a.ts'' Npm],
          resultWorkspaceFolderPath = None, configFilePath = None\<rparr>"
    by (simp add: loader_eval)
  have called: "runEsLint (configuredEnv crashedRunner) ''/proj/a.ts'' (runConfiguration (sampleConfig False)) =
       Inr \<lparr>lintResult = emptyLintResult, warnings = [getInstallFailureMessage ''/proj/a.ts'' Npm],
            resultWorkspaceFolderPath = None, configFilePath = None\<rparr>"
    by (simp add: configuredEnv_def sampleEnv_def crashedRunner_def runnerOf_def run)
  have sfx: "\<not> suffix ''.d.ts'' ''/proj/a.ts''" by (simp add: suffix_def)
  show ?thesis
    by (simp add: getSemanticDiagnostics_def lintAndReport_def called sfx reportWarnings_def
        whenTruthy_def filterProblemsForFile_def emptyLintResult_def oneHostDiagnostic_def Let_def)
      (simp add: configuredEnv_def sampleEnv_def sampleConfig_def sampleLoader_def crashingRequire_def)
qed

text \<open>
  Claim C9 says that decorating a service that already carries the marker gives back that
  same service. The code returns \<^verbatim>\<open>undefined\<close> instead: a first decoration wraps the
  host's service in a proxy and patches the supported code fixes; decorating the proxy
  again changes nothing and returns no service at all.
\<close>

theorem decorate_again_returns_undefined:
  "decorate errorCode supported (HostService h) =
     (Some (EsLintProxy (HostService h)), supported @ [showInt errorCode])
   \<and> decorate errorCode supported (EsLintProxy target) = (None, supported)
   \<and> fst (decorate errorCode supported (EsLintProxy target)) \<noteq> Some (EsLintProxy target)"
  by (simp add: decorate_def)

theorem decorate_again_returns_undefined_witness:
  "decorate 100000 [''2322''] (HostService 0) = (Some (EsLintProxy (HostService 0)), [''2322'', ''100000''])
   \<and> decorate 100000 [''2322'', ''100000''] (EsLintProxy (HostService 0)) = (None, [''2322'', ''100000''])"
  using decorate_again_returns_undefined [of 100000 "[''2322'']" 0 "HostService 0"]
    decorate_again_returns_undefined [of 100000 "[''2322'', ''100000'']" 0 "HostService 0"]
  by (simp add: showInt_def showNat.simps)

section \<open>Properties of the runner\<close>



















section \<open>Properties of the rule-scoped fix-all\<close>

lemma failureToFileTextChange_cases:
  "failureToFileTextChange (failure p) name =
     (if arrayFix p then Inl TypeError else Inr (changeOf name p))"
  by (simp add: failureToFileTextChange_def arrayFix_def changeOf_def getReplacements_def
      split: fix_value.splits)

lemma fixAllChanges_cases:
  "fixAllChanges ruleName name ps =
     (if list_ex (\<lambda>p. carriesRule ruleName p \<and> arrayFix p) ps then Inl TypeError
      else Inr (map (changeOf name) (filter (carriesRule ruleName) ps)))"
  by (induction ps) (simp_all add: carriesRule_def [symmetric] failureToFileTextChange_cases)

lemma fixAll_cases:
  "getRuleFailureFixAllQuickFix ruleName problems name =
     (if list_ex (\<lambda>p. carriesRule ruleName p \<and> arrayFix p) (ProblemMap_values problems) then Inl TypeError
      else if length (filter (carriesRule ruleName) (ProblemMap_values problems)) < 2 then Inr None
      else Inr (Some (fixAllAction ruleName name (ProblemMap_values problems))))"
  by (simp add: getRuleFailureFixAllQuickFix_def fixAllChanges_cases fixAllAction_def)

lemma one_change_each:
  "list_all (\<lambda>p. carriesRule ruleName p \<longrightarrow> singleFix p) ps \<Longrightarrow>
   list_all (\<lambda>c. length (textChanges c) = 1) (map (changeOf name) (filter (carriesRule ruleName) ps))"
  by (auto simp: list_all_iff singleFix_def changeOf_def getReplacements_def split: fix_value.splits)

lemma ProblemMap_get_values:
  "ProblemMap_get problems start end' = Some problem \<Longrightarrow> problem \<in> set (ProblemMap_values problems)"
  by (auto simp: ProblemMap_get_def ProblemMap_values_def dest!: map_of_SomeD intro: rev_image_eqI)

lemma autoFixAll_total:
  assumes "list_all (\<lambda>p. fixable p \<longrightarrow> getReplacements (fixOf (failure p)) \<noteq> []) (ProblemMap_values problems)"
  shows "\<exists>a. getFixAllAutoFixableQuickFix problems name = Inr a"
proof -
  let ?fs = "map failure (filter fixable (ProblemMap_values problems))"
  have "list_all (\<lambda>f. getReplacements (fixOf f) \<noteq> []) ?fs"
    using assms by (auto simp: list_all_iff)
  from resolver_result [OF this] show ?thesis
    by (simp add: getFixAllAutoFixableQuickFix_def)
qed

lemma codeFixes_throw:
  assumes host: "\<not> (suppressWhileTypeErrorsPresent cfg \<and> hostFixes name start end' codes \<noteq> [])"
    and reg: "codeFixActions st name = Some problems"
    and at: "ProblemMap_get problems (Num start) (Num end') = Some problem"
    and fx: "fixable problem" "fixOf (failure problem) \<noteq> NoFix"
    and rule: "ruleId (failure problem) = Some ruleName" "ruleName \<noteq> []"
    and arr: "list_ex (\<lambda>p. carriesRule ruleName p \<and> arrayFix p) (ProblemMap_values problems)"
  shows "getCodeFixesAtPosition env cfg hostFixes name start end' codes st = Inl TypeError"
proof -
  have reg': "codeFixActions (info e2 (info e1 st)) name = Some problems" for e1 e2
    using reg by (simp add: info_def)
  have "fixableActions problem ruleName problems name = Inl TypeError"
    using fx arr
    by (simp add: fixableActions_def getRuleFailureQuickFix_def failureToFileTextChange_cases
        fixAll_cases)
  with host at rule show ?thesis
    by (simp add: getCodeFixesAtPosition_def Let_def reg')
qed

lemma codeFixes_tagged:
  assumes host: "\<not> (suppressWhileTypeErrorsPresent cfg \<and> hostFixes name start end' codes \<noteq> [])"
    and reg: "codeFixActions st name = Some problems"
    and at: "ProblemMap_get problems (Num start) (Num end') = Some problem"
    and fx: "fixable problem" "fixOf (failure problem) \<noteq> NoFix"
    and rule: "ruleId (failure problem) = Some ruleName" "ruleName \<noteq> []"
    and arr: "\<not> list_ex (\<lambda>p. carriesRule ruleName p \<and> arrayFix p) (ProblemMap_values problems)"
    and rec: "list_all (\<lambda>p. fixable p \<longrightarrow> getReplacements (fixOf (failure p)) \<noteq> []) (ProblemMap_values problems)"
  shows "\<exists>single all st'.
      getCodeFixesAtPosition env cfg hostFixes name start end' codes st =
        Inr (hostFixes name start end' codes @
               [single, all, getDisableRuleQuickFix env (failure problem) name (getSourceFile env name)], st')
      \<and> description single = ''Fix: '' @ message (failure problem)
      \<and> fixName single = ''eslint:'' @ ruleName
      \<and> changes single = [changeOf name problem]
      \<and> (2 \<le> length (filter (carriesRule ruleName) (ProblemMap_values problems)) \<longrightarrow>
            fixId single = Some (''eslint:'' @ ruleName) \<and>
            fixAllDescription single = Some (''Fix all '' @ [CHR 0x27] @ ruleName @ [CHR 0x27]))
      \<and> (length (filter (carriesRule ruleName) (ProblemMap_values problems)) < 2 \<longrightarrow>
            fixId single = None \<and> fixAllDescription single = None)"
proof -
  have mem: "problem \<in> set (ProblemMap_values problems)" by (rule ProblemMap_get_values [OF at])
  have "carriesRule ruleName problem" using fx rule by (simp add: carriesRule_def)
  with arr mem have na: "\<not> arrayFix problem" by (auto simp: list_ex_iff)
  obtain all where all: "getFixAllAutoFixableQuickFix problems name = Inr all"
    using autoFixAll_total [OF rec] by blast
  have reg': "codeFixActions (info e2 (info e1 st)) name = Some problems" for e1 e2
    using reg by (simp add: info_def)
  note fa = fixAll_cases [of ruleName problems name]
  note ch = failureToFileTextChange_cases [of problem name]
  show ?thesis
  proof (cases "length (filter (carriesRule ruleName) (ProblemMap_values problems)) < 2")
    case True
    with host at fx rule arr na all fa ch show ?thesis
      by (simp add: getCodeFixesAtPosition_def Let_def reg' fixableActions_def
          getRuleFailureQuickFix_def showRuleId_def)
  next
    case False
    with host at fx rule arr na all fa ch show ?thesis
      by (simp add: getCodeFixesAtPosition_def Let_def reg' fixableActions_def
          getRuleFailureQuickFix_def fromFailure_def showRuleId_def)
  qed
qed

text \<open>
  Claim C4. For every registry, rule name and file, the rule-scoped fix-all is decided by
  the fixable problems of the registry that carry the rule. If one of them has an array
  of replacements as its fix, building the action raises a TypeError
  (\<^verbatim>\<open>convertFixToTextChange\<close> reads \<^verbatim>\<open>fix.range[0]\<close>, and an array has no \<^verbatim>\<open>range\<close>).
  Otherwise the action exists exactly when at least two of them carry the rule, and it
  holds one file change per such problem, each with exactly one text change when the
  fix is a single replacement. On a code-fix request that reaches a fixable problem with
  a fix and a rule at the exact span: when a fixable problem of that rule has an array
  fix, the TypeError leaves \<open>getCodeFixesAtPosition\<close>, which catches nothing; otherwise,
  in a registry whose fixable problems all have a replacement, the single-fix action is
  appended, tagged with the fix-group identifier \<open>eslint:<ruleId>\<close> and the description
  \<open>Fix all '<ruleId>'\<close> exactly when the fix-all exists, followed by the fix-all for
  the whole file and the disable action; the rule-scoped fix-all itself is not appended.
\<close>

theorem rule_fix_all_throws_on_array_fix:
  "getRuleFailureFixAllQuickFix ruleName problems name =
     (if list_ex (\<lambda>p. carriesRule ruleName p \<and> arrayFix p) (ProblemMap_values problems) then Inl TypeError
      else if length (filter (carriesRule ruleName) (ProblemMap_values problems)) < 2 then Inr None
      else Inr (Some (fixAllAction ruleName name (ProblemMap_values problems))))
   \<and> length (changes (fixAllAction ruleName name (ProblemMap_values problems))) =
       length (filter (carriesRule ruleName) (ProblemMap_values problems))
   \<and> (list_all (\<lambda>p. carriesRule ruleName p \<longrightarrow> singleFix p) (ProblemMap_values problems) \<longrightarrow>
        list_all (\<lambda>c. length (textChanges c) = 1)
          (changes (fixAllAction ruleName name (ProblemMap_values problems))))
   \<and> (\<not> (suppressWhileTypeErrorsPresent cfg \<and> hostFixes name start end' codes \<noteq> []) \<and>
       codeFixActions st name = Some problems \<and>
       ProblemMap_get problems (Num start) (Num end') = Some problem \<and>
       fixable problem \<and> fixOf (failure problem) \<noteq> NoFix \<and>
       ruleId (failure problem) = Some ruleName \<and> ruleName \<noteq> [] \<longrightarrow>
         (list_ex (\<lambda>p. carriesRule ruleName p \<and> arrayFix p) (ProblemMap_values problems) \<longrightarrow>
            getCodeFixesAtPosition env cfg hostFixes name start end' codes st = Inl TypeError)
         \<and> (\<not> list_ex (\<lambda>p. carriesRule ruleName p \<and> arrayFix p) (ProblemMap_values problems) \<and>
            list_all (\<lambda>p. fixable p \<longrightarrow> getReplacements (fixOf (failure p)) \<noteq> [])
              (ProblemMap_values problems) \<longrightarrow>
            (\<exists>single all st'.
               getCodeFixesAtPosition env cfg hostFixes name start end' codes st =
                 Inr (hostFixes name start end' codes @
                        [single, all,
                         getDisableRuleQuickFix env (failure problem) name (getSourceFile env name)], st')
               \<and> description single = ''Fix: '' @ message (failure problem)
               \<and> fixName single = ''eslint:'' @ ruleName
               \<and> changes single = [changeOf name problem]
               \<and> (2 \<le> length (filter (carriesRule ruleName) (ProblemMap_values problems)) \<longrightarrow>
                     fixId single = Some (''eslint:'' @ ruleName) \<and>
                     fixAllDescription single = Some (''Fix all '' @ [CHR 0x27] @ ruleName @ [CHR 0x27]))
               \<and> (length (filter (carriesRule ruleName) (ProblemMap_values problems)) < 2 \<longrightarrow>
                     fixId single = None \<and> fixAllDescription single = None))))"
proof (intro conjI impI)
  show "getRuleFailureFixAllQuickFix ruleName problems name =
     (if list_ex (\<lambda>p. carriesRule ruleName p \<and> arrayFix p) (ProblemMap_values problems) then Inl TypeError
      else if length (filter (carriesRule ruleName) (ProblemMap_values problems)) < 2 then Inr None
      else Inr (Some (fixAllAction ruleName name (ProblemMap_values problems))))"
    by (rule fixAll_cases)
  show "length (changes (fixAllAction ruleName name (ProblemMap_values problems))) =
       length (filter (carriesRule ruleName) (ProblemMap_values problems))"
    by (simp add: fixAllAction_def)
  show "list_all (\<lambda>c. length (textChanges c) = 1)
          (changes (fixAllAction ruleName name (ProblemMap_values problems)))"
    if "list_all (\<lambda>p. carriesRule ruleName p \<longrightarrow> singleFix p) (ProblemMap_values problems)"
    using one_change_each [OF that] by (simp add: fixAllAction_def)
next
  assume r: "\<not> (suppressWhileTypeErrorsPresent cfg \<and> hostFixes name start end' codes \<noteq> []) \<and>
       codeFixActions st name = Some problems \<and>
       ProblemMap_get problems (Num start) (Num end') = Some problem \<and>
       fixable problem \<and> fixOf (failure problem) \<noteq> NoFix \<and>
       ruleId (failure problem) = Some ruleName \<and> ruleName \<noteq> []"
  show "getCodeFixesAtPosition env cfg hostFixes name start end' codes st = Inl TypeError"
    if "list_ex (\<lambda>p. carriesRule ruleName p \<and> arrayFix p) (ProblemMap_values problems)"
    using r that codeFixes_throw [of cfg hostFixes name start end' codes st problems problem ruleName env]
    by blast
  show "\<exists>single all st'.
               getCodeFixesAtPosition env cfg hostFixes name start end' codes st =
                 Inr (hostFixes name start end' codes @
                        [single, all,
                         getDisableRuleQuickFix env (failure problem) name (getSourceFile env name)], st')
               \<and> description single = ''Fix: '' @ message (failure problem)
               \<and> fixName single = ''eslint:'' @ ruleName
               \<and> changes single = [changeOf name problem]
               \<and> (2 \<le> length (filter (carriesRule ruleName) (ProblemMap_values problems)) \<longrightarrow>
                     fixId single = Some (''eslint:'' @ ruleName) \<and>
                     fixAllDescription single = Some (''Fix all '' @ [CHR 0x27] @ ruleName @ [CHR 0x27]))
               \<and> (length (filter (carriesRule ruleName) (ProblemMap_values problems)) < 2 \<longrightarrow>
                     fixId single = None \<and> fixAllDescription single = None)"
    if "\<not> list_ex (\<lambda>p. carriesRule ruleName p \<and> arrayFix p) (ProblemMap_values problems) \<and>
            list_all (\<lambda>p. fixable p \<longrightarrow> getReplacements (fixOf (failure p)) \<noteq> [])
              (ProblemMap_values problems)"
    using r that codeFixes_tagged [of cfg hostFixes name start end' codes st problems problem ruleName env]
    by blast
qed

lemmas registry_eval = ProblemMap_values_def ProblemMap_get_def quoteRegistry_def quoteA_def quoteB_def
  arrayRegistry_def arrayA_def arrayB_def mkFailure_def mkFix_def

theorem rule_fix_all_throws_on_array_fix_witness:
  "length (filter (carriesRule ''quotemark'') (ProblemMap_values arrayRegistry)) = 2
   \<and> getRuleFailureFixAllQuickFix ''quotemark'' arrayRegistry ''a.ts'' = Inl TypeError
   \<and> getCodeFixesAtPosition (sampleEnv lintingRunner) (sampleConfig False) noHostFixes
        ''a.ts'' 0 0 [100000] arrayState = Inl TypeError
   \<and> length (filter (carriesRule ''quotemark'') (ProblemMap_values quoteRegistry)) = 2
   \<and> getRuleFailureFixAllQuickFix ''quotemark'' quoteRegistry ''a.ts'' =
       Inr (Some (fixAllAction ''quotemark'' ''a.ts'' (ProblemMap_values quoteRegistry)))
   \<and> length (changes (fixAllAction ''quotemark'' ''a.ts'' (ProblemMap_values quoteRegistry))) = 2
   \<and> list_all (\<lambda>c. length (textChanges c) = 1)
        (changes (fixAllAction ''quotemark'' ''a.ts'' (ProblemMap_values quoteRegistry)))
   \<and> (\<exists>single all st'.
         getCodeFixesAtPosition (sampleEnv lintingRunner) (sampleConfig False) noHostFixes
           ''a.ts'' 0 0 [100000] quoteState =
             Inr ([single, all,
                   getDisableRuleQuickFix (sampleEnv lintingRunner) quoteA ''a.ts'' sampleFile], st')
         \<and> fixId single = Some ''eslint:quotemark''
         \<and> fixAllDescription single = Some (''Fix all '' @ [CHR 0x27] @ ''quotemark'' @ [CHR 0x27]))"
proof -
  note arr = rule_fix_all_throws_on_array_fix [where ruleName = "''quotemark''" and problems = arrayRegistry
      and name = "''a.ts''" and cfg = "sampleConfig False" and hostFixes = noHostFixes and start = 0
      and end' = 0 and codes = "[100000]" and st = arrayState
      and problem = "\<lparr>failure = arrayA, fixable = isFixable arrayA\<rparr>" and env = "sampleEnv lintingRunner"]
  note quo = rule_fix_all_throws_on_array_fix [where ruleName = "''quotemark''" and problems = quoteRegistry
      and name = "''a.ts''" and cfg = "sampleConfig False" and hostFixes = noHostFixes and start = 0
      and end' = 0 and codes = "[100000]" and st = quoteState
      and problem = "\<lparr>failure = quoteA, fixable = True\<rparr>" and env = "sampleEnv lintingRunner"]
  have k: "key (Num 0) (Num 0) = ''[0,0]''" "key (Num 10) (Num 10) = ''[10,10]''"
    by (simp_all add: key_def showNumber_def showInt_def showNat.simps)
  have fxa: "isFixable arrayA" "isFixable arrayB"
    by (simp_all add: isFixable_def replacementsAreEmpty_def arrayA_def arrayB_def mkFailure_def)
  have na: "length (filter (carriesRule ''quotemark'') (ProblemMap_values arrayRegistry)) = 2"
    by (simp add: ProblemMap_values_def arrayRegistry_def carriesRule_def fxa)
      (simp add: arrayA_def arrayB_def mkFailure_def)
  have ea: "list_ex (\<lambda>p. carriesRule ''quotemark'' p \<and> arrayFix p) (ProblemMap_values arrayRegistry)"
    by (simp add: ProblemMap_values_def arrayRegistry_def carriesRule_def arrayFix_def fxa)
      (simp add: arrayA_def arrayB_def mkFailure_def)
  have ata: "ProblemMap_get arrayRegistry (Num 0) (Num 0) = Some \<lparr>failure = arrayA, fixable = isFixable arrayA\<rparr>"
    by (simp add: ProblemMap_get_def arrayRegistry_def k)
  have ra: "ruleId arrayA = Some ''quotemark''" "fixOf arrayA \<noteq> NoFix"
    by (simp_all add: arrayA_def mkFailure_def)
  have sa: "codeFixActions arrayState ''a.ts'' = Some arrayRegistry" by (simp add: arrayState_def)
  have sup: "\<not> suppressWhileTypeErrorsPresent (sampleConfig False)" by (simp add: sampleConfig_def)
  have a1: "getRuleFailureFixAllQuickFix ''quotemark'' arrayRegistry ''a.ts'' = Inl TypeError"
    using arr [THEN conjunct1] ea by simp
  have a2: "getCodeFixesAtPosition (sampleEnv lintingRunner) (sampleConfig False) noHostFixes
        ''a.ts'' 0 0 [100000] arrayState = Inl TypeError"
    using arr [THEN conjunct2, THEN conjunct2, THEN conjunct2] ea ata ra sa sup fxa by simp
  have nq: "length (filter (carriesRule ''quotemark'') (ProblemMap_values quoteRegistry)) = 2"
    by (simp add: registry_eval carriesRule_def)
  have eq: "\<not> list_ex (\<lambda>p. carriesRule ''quotemark'' p \<and> arrayFix p) (ProblemMap_values quoteRegistry)"
    by (simp add: registry_eval carriesRule_def arrayFix_def)
  have sq: "list_all (\<lambda>p. carriesRule ''quotemark'' p \<longrightarrow> singleFix p) (ProblemMap_values quoteRegistry)"
    by (simp add: registry_eval carriesRule_def singleFix_def)
  have rq: "list_all (\<lambda>p. fixable p \<longrightarrow> getReplacements (fixOf (failure p)) \<noteq> []) (ProblemMap_values quoteRegistry)"
    by (simp add: registry_eval getReplacements_def)
  have atq: "ProblemMap_get quoteRegistry (Num 0) (Num 0) = Some \<lparr>failure = quoteA, fixable = True\<rparr>"
    by (simp add: ProblemMap_get_def quoteRegistry_def k)
  have rul: "ruleId quoteA = Some ''quotemark''" "fixOf quoteA \<noteq> NoFix"
    by (simp_all add: quoteA_def mkFailure_def)
  have g: "getSourceFile (sampleEnv lintingRunner) ''a.ts'' = sampleFile" by (simp add: sampleEnv_def)
  have stq: "codeFixActions quoteState ''a.ts'' = Some quoteRegistry" by (simp add: quoteState_def)
  have q1: "getRuleFailureFixAllQuickFix ''quotemark'' quoteRegistry ''a.ts'' =
       Inr (Some (fixAllAction ''quotemark'' ''a.ts'' (ProblemMap_values quoteRegistry)))"
    using quo [THEN conjunct1] eq nq by simp
  have q2: "length (changes (fixAllAction ''quotemark'' ''a.ts'' (ProblemMap_values quoteRegistry))) = 2"
    using quo [THEN conjunct2, THEN conjunct1] nq by simp
  have q3: "list_all (\<lambda>c. length (textChanges c) = 1)
        (changes (fixAllAction ''quotemark'' ''a.ts'' (ProblemMap_values quoteRegistry)))"
    using quo [THEN conjunct2, THEN conjunct2, THEN conjunct1] sq by simp
  have q4: "\<exists>single all st'.
         getCodeFixesAtPosition (sampleEnv lintingRunner) (sampleConfig False) noHostFixes
           ''a.ts'' 0 0 [100000] quoteState =
             Inr ([single, all,
                   getDisableRuleQuickFix (sampleEnv lintingRunner) quoteA ''a.ts'' sampleFile], st')
         \<and> fixId single = Some ''eslint:quotemark''
         \<and> fixAllDescription single = Some (''Fix all '' @ [CHR 0x27] @ ''quotemark'' @ [CHR 0x27])"
    using quo [THEN conjunct2, THEN conjunct2, THEN conjunct2] eq rq atq rul g stq sup nq
    by (simp add: noHostFixes_def) blast
  from na a1 a2 nq q1 q2 q3 q4 show ?thesis by (intro conjI)
qed

end
